theory Spec2Isabelle
  imports Complex_Main
begin

section \<open>Data model\<close>

text \<open>
  The rows of the relational store, field by field as the schema declares them. Monetary and
  price columns are decimal strings in the schema, read with \<open>parseFloat\<close> and written with
  \<open>toString\<close>; they are modelled as real numbers, so the arithmetic below is exact. Rounding
  of binary floating point and of the decimal columns is outside this model, and a quotient
  is the source's quotient only where the divisor is not zero. Nullable columns that the
  source reads through \<open>x || "0"\<close> are options. Row identifiers of agents and markets are
  strings (they come back from the decision provider); identifiers of the rows created here
  are drawn from a counter.
\<close>

type_synonym rowid = nat

record Agent =
  aId :: string
  aName :: string
  aProvider :: string
  initialBalance :: real
  currentBalance :: real
  isActive :: bool

record Market =
  mId :: string
  liquidity :: "real option"
  yesPrice :: "real option"
  noPrice :: "real option"
  isResolved :: bool

datatype ActionKind = BUY | SELL | HOLD

record TradeAction =
  action :: ActionKind
  market_id :: string
  side :: string
  size_usd :: real
  max_price :: real
  reasoning :: string

record Trade =
  tId :: rowid
  tAgentId :: string
  tMarketId :: string
  tAction :: ActionKind
  tSide :: string
  tSizeUsd :: real
  tPrice :: real
  tShares :: real
  tReasoning :: string
  tStatus :: string
  tErrorMessage :: "string option"

record Position =
  pId :: rowid
  pAgentId :: string
  pMarketId :: string
  pSide :: string
  shares :: real
  entryPrice :: real
  currentValue :: "real option"
  unrealizedPnl :: "real option"

record PerformanceMetrics =
  pmAgentId :: string
  netPnl :: real
  sharpeRatio :: "real option"
  maxDrawdown :: "real option"
  winRate :: "real option"
  totalTrades :: nat
  winningTrades :: nat
  losingTrades :: nat
  avgHoldingTime :: nat
  turnover :: real

record TickCycle =
  cId :: rowid
  cCycleNumber :: nat
  cStatus :: string
  cCompletedAt :: "nat option"
  cMarketsProcessed :: nat
  cTradesExecuted :: nat
  cErrorCount :: nat

text \<open>
  An alert without its message text and metadata; a title is kept without the numbers the
  source formats into it.
\<close>

record Alert =
  alType :: string
  alSeverity :: string
  alTitle :: string
  alAgentId :: "string option"
  alTradeId :: "rowid option"

datatype Broadcast =
    CycleStart TickCycle
  | NewTrade Trade Agent
  | CycleComplete TickCycle nat nat "Agent list" "PerformanceMetrics list"
  | AlertMessage Alert

text \<open>
  The store with its tables in insertion order, the messages handed to the websocket
  service, and the scheduler's own cycle counter.
\<close>

record store =
  agents :: "Agent list"
  markets :: "Market list"
  trades :: "Trade list"
  positions :: "Position list"
  performanceMetrics :: "PerformanceMetrics list"
  tickCycles :: "TickCycle list"
  alerts :: "Alert list"
  nextId :: rowid
  broadcasts :: "Broadcast list"
  cycleNumber :: nat

section \<open>Configuration\<close>

definition maxTradePercent :: real where
  "maxTradePercent = 1 / 10"

definition minLiquidity :: real where
  "minLiquidity = 1000"

definition tickIntervalMinutes :: nat where
  "tickIntervalMinutes = 15"

text \<open>The credentials the executor looks for in the process environment.\<close>

record Credentials =
  POLYMARKET_PRIVATE_KEY :: bool
  POLYMARKET_API_KEY :: bool
  POLYMARKET_API_SECRET :: bool
  POLYMARKET_PASSPHRASE :: bool

definition isSimulation :: "Credentials \<Rightarrow> bool" where
  "isSimulation env =
     (\<not> (POLYMARKET_PRIVATE_KEY env \<and> POLYMARKET_API_KEY env \<and> POLYMARKET_API_SECRET env))"

section \<open>Storage accessors\<close>

definition getAgent :: "store \<Rightarrow> string \<Rightarrow> Agent option" where
  "getAgent st i = find (\<lambda>a. aId a = i) (agents st)"

definition updateAgentBalance :: "store \<Rightarrow> string \<Rightarrow> real \<Rightarrow> store" where
  "updateAgentBalance st i b =
     st\<lparr>agents := map (\<lambda>a. if aId a = i then a\<lparr>currentBalance := b\<rparr> else a) (agents st)\<rparr>"

definition getMarket :: "store \<Rightarrow> string \<Rightarrow> Market option" where
  "getMarket st i = find (\<lambda>m. mId m = i) (markets st)"

definition getPosition :: "store \<Rightarrow> string \<Rightarrow> string \<Rightarrow> string \<Rightarrow> Position option" where
  "getPosition st agentId marketId sd =
     find (\<lambda>p. pAgentId p = agentId \<and> pMarketId p = marketId \<and> pSide p = sd) (positions st)"

definition getPositionsByAgent :: "store \<Rightarrow> string \<Rightarrow> Position list" where
  "getPositionsByAgent st agentId = filter (\<lambda>p. pAgentId p = agentId) (positions st)"

definition createPosition ::
  "store \<Rightarrow> string \<Rightarrow> string \<Rightarrow> string \<Rightarrow> real \<Rightarrow> real \<Rightarrow> real option \<Rightarrow> real option \<Rightarrow> store" where
  "createPosition st agentId marketId sd sh ep cv up =
     st\<lparr>positions := positions st @
           [\<lparr>pId = nextId st, pAgentId = agentId, pMarketId = marketId, pSide = sd,
             shares = sh, entryPrice = ep, currentValue = cv, unrealizedPnl = up\<rparr>],
        nextId := Suc (nextId st)\<rparr>"

definition updatePosition :: "store \<Rightarrow> rowid \<Rightarrow> (Position \<Rightarrow> Position) \<Rightarrow> store" where
  "updatePosition st i f =
     st\<lparr>positions := map (\<lambda>p. if pId p = i then f p else p) (positions st)\<rparr>"

definition deletePosition :: "store \<Rightarrow> rowid \<Rightarrow> store" where
  "deletePosition st i = st\<lparr>positions := filter (\<lambda>p. pId p \<noteq> i) (positions st)\<rparr>"

text \<open>
  \<open>getTrades\<close> and \<open>getTradesByAgent\<close> order by \<open>executedAt\<close>, newest first; the
  table is kept in insertion order, so newest first is the reversed list.
\<close>

definition getTrades :: "store \<Rightarrow> nat \<Rightarrow> Trade list" where
  "getTrades st limit = take limit (rev (trades st))"

definition getTradesByAgent :: "store \<Rightarrow> string \<Rightarrow> Trade list" where
  "getTradesByAgent st agentId = rev (filter (\<lambda>t. tAgentId t = agentId) (trades st))"

definition createTrade ::
  "store \<Rightarrow> string \<Rightarrow> string \<Rightarrow> ActionKind \<Rightarrow> string \<Rightarrow> real \<Rightarrow> real \<Rightarrow> real \<Rightarrow> string \<Rightarrow> string
     \<Rightarrow> store \<times> Trade" where
  "createTrade st agentId marketId act sd sz pr sh rs stat =
     (let t = \<lparr>tId = nextId st, tAgentId = agentId, tMarketId = marketId, tAction = act,
                tSide = sd, tSizeUsd = sz, tPrice = pr, tShares = sh, tReasoning = rs,
                tStatus = stat, tErrorMessage = None\<rparr>
      in (st\<lparr>trades := trades st @ [t], nextId := Suc (nextId st)\<rparr>, t))"

definition updateTradeStatus :: "store \<Rightarrow> rowid \<Rightarrow> string \<Rightarrow> string option \<Rightarrow> store" where
  "updateTradeStatus st i stat msg =
     st\<lparr>trades := map (\<lambda>t. if tId t = i
                            then (case msg of None \<Rightarrow> t\<lparr>tStatus := stat\<rparr>
                                  | Some m \<Rightarrow> t\<lparr>tStatus := stat, tErrorMessage := Some m\<rparr>)
                            else t) (trades st)\<rparr>"

definition createMetrics :: "store \<Rightarrow> PerformanceMetrics \<Rightarrow> store" where
  "createMetrics st m = st\<lparr>performanceMetrics := performanceMetrics st @ [m]\<rparr>"

section \<open>Trade executor\<close>

text \<open>
  \<open>executeTrade\<close> catches every exception and returns a result, and the statements about
  it concern validation and executed trades; its storage calls are modelled as answering.
  Storage calls that throw are modelled in the scheduler, where an exception decides what
  happens to the cycle.
\<close>

datatype ExecError =
    AgentNotFound
  | MarketNotFound
  | MarketResolved
  | InsufficientBalance real
  | ExceedsLimit
  | LiquidityTooLow real
  | InsufficientPosition
  | AgentOrMarketNotFound
  | PriceExceedsMax real real
  | ExecutionFailed

record ExecutionResult =
  success :: bool
  trade :: "Trade option"
  error :: "ExecError option"

text \<open>\<open>validateTrade\<close>: \<open>None\<close> is \<open>{ valid: true }\<close>, \<open>Some e\<close> is the first failing check.\<close>

definition validateTrade :: "store \<Rightarrow> string \<Rightarrow> TradeAction \<Rightarrow> ExecError option" where
  "validateTrade st agentId a =
     (if action a = HOLD then None
      else case getAgent st agentId of
        None \<Rightarrow> Some AgentNotFound
      | Some agent \<Rightarrow>
         (case getMarket st (market_id a) of
            None \<Rightarrow> Some MarketNotFound
          | Some market \<Rightarrow>
             if isResolved market then Some MarketResolved
             else if action a = BUY \<and> size_usd a > currentBalance agent
               then Some (InsufficientBalance (currentBalance agent))
             else if size_usd a > initialBalance agent * maxTradePercent
               then Some ExceedsLimit
             else if (case liquidity market of None \<Rightarrow> 0 | Some l \<Rightarrow> l) < minLiquidity
               then Some (LiquidityTooLow (case liquidity market of None \<Rightarrow> 0 | Some l \<Rightarrow> l))
             else if action a = SELL then
               (case getPosition st agentId (market_id a) (side a) of
                  None \<Rightarrow> Some InsufficientPosition
                | Some p \<Rightarrow>
                   if shares p * entryPrice p < size_usd a then Some InsufficientPosition
                   else None)
             else None))"

text \<open>
  \<open>simulateTrade\<close> works from the agent row its caller read before the trade. With a store
  that answers every call it returns \<open>true\<close>; the flag is kept as the source returns it.
  Its quotients, and the share count \<open>size_usd / price\<close> that \<open>executeTrade\<close> hands in,
  are the source's only for a divisor that is not zero: there the source computes
  \<open>Infinity\<close> or \<open>NaN\<close>. The theorems below on the entry price after two BUYs, on the
  row a SELL leaves and on the sign of the stored share counts take every such divisor to be
  non-zero.
\<close>

definition simulateTrade ::
  "store \<Rightarrow> Agent \<Rightarrow> Market \<Rightarrow> TradeAction \<Rightarrow> real \<Rightarrow> real \<Rightarrow> store \<times> bool" where
  "simulateTrade st agent market a shs price =
     (let balance = currentBalance agent in
      if action a = BUY then
        (let st1 = updateAgentBalance st (aId agent) (balance - size_usd a) in
         case getPosition st1 (aId agent) (mId market) (side a) of
           Some existingPosition \<Rightarrow>
             (let existingShares = shares existingPosition;
                  existingValue = existingShares * entryPrice existingPosition;
                  newShares = existingShares + shs;
                  newAvgPrice = (existingValue + size_usd a) / newShares
              in (updatePosition st1 (pId existingPosition)
                    (\<lambda>p. p\<lparr>shares := newShares, entryPrice := newAvgPrice,
                            currentValue := Some (newShares * price)\<rparr>), True))
         | None \<Rightarrow>
             (createPosition st1 (aId agent) (mId market) (side a) shs price
                (Some (size_usd a)) (Some 0), True))
      else if action a = SELL then
        (let st1 = updateAgentBalance st (aId agent) (balance + size_usd a) in
         case getPosition st1 (aId agent) (mId market) (side a) of
           Some position \<Rightarrow>
             (let currentShares = shares position;
                  sharesToSell = size_usd a / price;
                  remainingShares = currentShares - sharesToSell
              in if remainingShares \<le> 1 / 1000
                 then (deletePosition st1 (pId position), True)
                 else (updatePosition st1 (pId position)
                         (\<lambda>p. p\<lparr>shares := remainingShares,
                                 currentValue := Some (remainingShares * price)\<rparr>), True))
         | None \<Rightarrow> (st1, True))
      else (st, True))"

definition executeRealTrade ::
  "Credentials \<Rightarrow> store \<Rightarrow> Agent \<Rightarrow> Market \<Rightarrow> TradeAction \<Rightarrow> real \<Rightarrow> real \<Rightarrow> store \<times> bool" where
  "executeRealTrade env st agent market a shs price =
     (if \<not> POLYMARKET_API_KEY env \<or> \<not> POLYMARKET_API_SECRET env \<or> \<not> POLYMARKET_PASSPHRASE env
      then (st, False)
      else simulateTrade st agent market a shs price)"

text \<open>
  \<open>updateMetrics\<close> appends one snapshot row. It is handed the agent row read before the
  trade, as in the source.
\<close>

definition updateMetrics :: "store \<Rightarrow> Agent \<Rightarrow> store" where
  "updateMetrics st agent =
     (let trs = getTradesByAgent st (aId agent);
          poss = getPositionsByAgent st (aId agent);
          executedTrades = filter (\<lambda>t. tStatus t = ''executed'') trs;
          total = length executedTrades;
          unrealized = sum_list (map (\<lambda>p. case unrealizedPnl p of None \<Rightarrow> 0 | Some u \<Rightarrow> u) poss);
          net = (currentBalance agent - initialBalance agent) + unrealized;
          pnlRatio = net / initialBalance agent;
          estimatedWinRate = max (3 / 10) (min (7 / 10) (1 / 2 + pnlRatio));
          winning = nat \<lfloor>real total * estimatedWinRate\<rfloor>;
          losing = total - winning;
          wr = (if total > 0 then real winning / real total else 0);
          returns = net / initialBalance agent;
          volatility = (2 / 10 :: real);
          sharpe = (if volatility > 0 then returns / volatility else 0);
          drawdown = min 0 (net / initialBalance agent);
          totalVolume = sum_list (map tSizeUsd executedTrades);
          holding = (if total > 0 then tickIntervalMinutes * 4 else 0)
      in createMetrics st
           \<lparr>pmAgentId = aId agent, netPnl = net, sharpeRatio = Some sharpe,
            maxDrawdown = Some drawdown, winRate = Some wr, totalTrades = total,
            winningTrades = winning, losingTrades = losing, avgHoldingTime = holding,
            turnover = totalVolume\<rparr>)"

text \<open>
  The current price of a side, as \<open>executeTrade\<close> and \<open>updatePositionValues\<close> both read
  it: the YES price for side \<open>YES\<close>, the NO price for anything else, 0.5 when the column
  is empty.
\<close>

definition marketPrice :: "Market \<Rightarrow> string \<Rightarrow> real" where
  "marketPrice market sd =
     (if sd = ''YES'' then (case yesPrice market of None \<Rightarrow> 1 / 2 | Some p \<Rightarrow> p)
      else (case noPrice market of None \<Rightarrow> 1 / 2 | Some p \<Rightarrow> p))"

definition executeTrade ::
  "Credentials \<Rightarrow> store \<Rightarrow> string \<Rightarrow> TradeAction \<Rightarrow> store \<times> ExecutionResult" where
  "executeTrade env st agentId a =
     (case validateTrade st agentId a of
        Some e \<Rightarrow> (st, \<lparr>success = False, trade = None, error = Some e\<rparr>)
      | None \<Rightarrow>
         (case (getAgent st agentId, getMarket st (market_id a)) of
            (Some agent, Some market) \<Rightarrow>
              (let currentPrice = marketPrice market (side a) in
               if action a = BUY \<and> currentPrice > max_price a
               then (st, \<lparr>success = False, trade = None,
                          error = Some (PriceExceedsMax currentPrice (max_price a))\<rparr>)
               else
                 (let shs = size_usd a / currentPrice;
                      (st1, tr) = createTrade st agentId (market_id a) (action a) (side a)
                                    (size_usd a) currentPrice shs (reasoning a) ''pending'';
                      (st2, executionSuccess) =
                         (if isSimulation env then simulateTrade st1 agent market a shs currentPrice
                          else executeRealTrade env st1 agent market a shs currentPrice)
                  in if executionSuccess then
                       (let st3 = updateTradeStatus st2 (tId tr) ''executed'' None;
                            st4 = updateMetrics st3 agent
                        in (st4, \<lparr>success = True,
                                  trade = Some (case getTrades st4 1 of t # _ \<Rightarrow> t | [] \<Rightarrow> tr),
                                  error = None\<rparr>))
                     else
                       (let st3 = updateTradeStatus st2 (tId tr) ''failed'' (Some ''Execution failed'')
                        in (st3, \<lparr>success = False, trade = Some tr,
                                  error = Some ExecutionFailed\<rparr>))))
          | _ \<Rightarrow> (st, \<lparr>success = False, trade = None, error = Some AgentOrMarketNotFound\<rparr>)))"

text \<open>
  \<open>updatePositionValues\<close> reads the positions and the markets once, then rewrites each
  position whose market is known. The markets are looked up in a \<open>Map\<close> built from the
  list, where a later entry replaces an earlier one with the same key.
\<close>

definition updateMarket :: "store \<Rightarrow> string \<Rightarrow> (Market \<Rightarrow> Market) \<Rightarrow> store" where
  "updateMarket st i f =
     st\<lparr>markets := map (\<lambda>m. if mId m = i then f m else m) (markets st)\<rparr>"

definition updatePositionValues :: "store \<Rightarrow> store" where
  "updatePositionValues st =
     foldl (\<lambda>s position.
              case find (\<lambda>m. mId m = pMarketId position) (rev (markets st)) of
                None \<Rightarrow> s
              | Some market \<Rightarrow>
                 (let currentPrice = marketPrice market (pSide position);
                      shs = shares position;
                      ep = entryPrice position
                  in updatePosition s (pId position)
                       (\<lambda>p. p\<lparr>currentValue := Some (shs * currentPrice),
                               unrealizedPnl := Some ((currentPrice - ep) * shs)\<rparr>)))
       st (positions st)"

section \<open>Alert service\<close>

record AlertThresholds =
  largeWinAmount :: real
  largeLossAmount :: real
  riskLimitPercent :: real
  significantDrawdown :: real
  highWinRateThreshold :: real

definition defaultThresholds :: AlertThresholds where
  "defaultThresholds =
     \<lparr>largeWinAmount = 25, largeLossAmount = 20, riskLimitPercent = 35,
      significantDrawdown = 10, highWinRateThreshold = 75\<rparr>"

text \<open>\<open>createAlert\<close> stores the alert, then hands it to the websocket service.\<close>

definition createAlert :: "store \<Rightarrow> Alert \<Rightarrow> store" where
  "createAlert st al =
     st\<lparr>alerts := alerts st @ [al], broadcasts := broadcasts st @ [AlertMessage al]\<rparr>"

definition checkTradeAlerts :: "store \<Rightarrow> Trade \<Rightarrow> Agent \<Rightarrow> store" where
  "checkTradeAlerts st tr agent =
     (let tradeSize = tSizeUsd tr;
          portfolioSize = currentBalance agent;
          tradePercent = (tradeSize / portfolioSize) * 100;
          st1 = (if tAction tr = BUY \<and> tStatus tr = ''executed''
                    \<and> tradeSize * (1 / 10) \<ge> largeWinAmount defaultThresholds
                 then createAlert st
                        \<lparr>alType = ''large_win'', alSeverity = ''info'',
                         alTitle = ''Large Position: '' @ aName agent,
                         alAgentId = Some (aId agent), alTradeId = Some (tId tr)\<rparr>
                 else st);
          st2 = (if tradePercent \<ge> riskLimitPercent defaultThresholds
                 then createAlert st1
                        \<lparr>alType = ''risk_breach'', alSeverity = ''warning'',
                         alTitle = ''Risk Limit Warning: '' @ aName agent,
                         alAgentId = Some (aId agent), alTradeId = Some (tId tr)\<rparr>
                 else st1)
      in if tStatus tr = ''failed''
            \<and> (case tErrorMessage tr of None \<Rightarrow> False | Some m \<Rightarrow> m \<noteq> [])
         then createAlert st2
                \<lparr>alType = ''system_error'', alSeverity = ''warning'',
                 alTitle = ''Trade Failed: '' @ aName agent,
                 alAgentId = Some (aId agent), alTradeId = Some (tId tr)\<rparr>
         else st2)"

definition checkPerformanceAlerts ::
  "store \<Rightarrow> Agent \<Rightarrow> PerformanceMetrics \<Rightarrow> PerformanceMetrics option \<Rightarrow> store" where
  "checkPerformanceAlerts st agent m previousMetrics =
     (let netPnL = netPnl m;
          drawdown = (case maxDrawdown m of None \<Rightarrow> 0 | Some d \<Rightarrow> d);
          wr = (case winRate m of None \<Rightarrow> 0 | Some w \<Rightarrow> w);
          st1 = (case previousMetrics of
                   None \<Rightarrow> st
                 | Some prev \<Rightarrow>
                    (let pnlChange = netPnL - netPnl prev;
                         s1 = (if pnlChange \<ge> largeWinAmount defaultThresholds
                               then createAlert st
                                      \<lparr>alType = ''large_win'', alSeverity = ''info'',
                                       alTitle = ''Winning Streak: '' @ aName agent,
                                       alAgentId = Some (aId agent), alTradeId = None\<rparr>
                               else st)
                     in if pnlChange \<le> - largeLossAmount defaultThresholds
                        then createAlert s1
                               \<lparr>alType = ''large_loss'', alSeverity = ''warning'',
                                alTitle = ''Significant Loss: '' @ aName agent,
                                alAgentId = Some (aId agent), alTradeId = None\<rparr>
                        else s1));
          st2 = (if drawdown \<ge> significantDrawdown defaultThresholds
                 then createAlert st1
                        \<lparr>alType = ''risk_breach'', alSeverity = ''critical'',
                         alTitle = ''Drawdown Alert: '' @ aName agent,
                         alAgentId = Some (aId agent), alTradeId = None\<rparr>
                 else st1)
      in if wr \<ge> highWinRateThreshold defaultThresholds \<and> totalTrades m \<ge> 5
         then createAlert st2
                \<lparr>alType = ''market_opportunity'', alSeverity = ''info'',
                 alTitle = ''High Win Rate: '' @ aName agent,
                 alAgentId = Some (aId agent), alTradeId = None\<rparr>
         else st2)"

record CycleStats =
  csCycleNumber :: nat
  csMarketsProcessed :: nat
  csTradesExecuted :: nat
  csErrorCount :: nat

definition checkCycleAlerts :: "store \<Rightarrow> CycleStats \<Rightarrow> store" where
  "checkCycleAlerts st cycleStats =
     (let st1 = (if csErrorCount cycleStats > 0
                 then createAlert st
                        \<lparr>alType = ''system_error'',
                         alSeverity = (if csErrorCount cycleStats \<ge> 3 then ''critical''
                                       else ''warning''),
                         alTitle = ''Cycle Errors'', alAgentId = None, alTradeId = None\<rparr>
                 else st)
      in if csTradesExecuted cycleStats \<ge> 3
         then createAlert st1
                \<lparr>alType = ''market_opportunity'', alSeverity = ''info'',
                 alTitle = ''Active Trading Cycle'', alAgentId = None, alTradeId = None\<rparr>
         else st1)"

section \<open>Decision engine: parsing a provider response\<close>

text \<open>
  \<open>JSON.parse\<close> returns an untyped value, so the fields of a response are JSON values, and
  a number of the source is a real or \<open>NaN\<close>. An object is its list of members in textual
  order; a later member replaces an earlier one with the same key.
\<close>

datatype json =
    JNull
  | JBool bool
  | JNum real
  | JStr string
  | JArr "json list"
  | JObj "(string \<times> json) list"

datatype jsnum = Num real | NaN

fun truthy :: "json \<Rightarrow> bool" where
  "truthy JNull = False"
| "truthy (JBool b) = b"
| "truthy (JNum x) = (x \<noteq> 0)"
| "truthy (JStr s) = (s \<noteq> [])"
| "truthy (JArr xs) = True"
| "truthy (JObj fs) = True"

text \<open>Reading a property: \<open>None\<close> is \<open>undefined\<close>.\<close>

definition getProp :: "json \<Rightarrow> string \<Rightarrow> json option" where
  "getProp v k = (case v of JObj fs \<Rightarrow> map_of (rev fs) k | _ \<Rightarrow> None)"

definition present :: "json option \<Rightarrow> bool" where
  "present v = (case v of None \<Rightarrow> False | Some x \<Rightarrow> truthy x)"

text \<open>\<open>a || b\<close> for a property \<open>a\<close>.\<close>

definition orElse :: "json option \<Rightarrow> json \<Rightarrow> json" where
  "orElse v d = (case v of None \<Rightarrow> d | Some x \<Rightarrow> if truthy x then x else d)"

text \<open>
  The conversion \<open>Math.min\<close> applies to its arguments; \<open>None\<close> is the type error it can
  throw. What a string or an array converts to depends on its text and its elements; that
  reading is the parameter \<open>textToNumber\<close>. An object is converted through its
  \<open>toString\<close>: the inherited one gives a text that reads as \<open>NaN\<close>, and a member of the
  object named \<open>toString\<close> hides it with a value that cannot be called.
\<close>

definition ToNumber :: "(json \<Rightarrow> jsnum option) \<Rightarrow> json \<Rightarrow> jsnum option" where
  "ToNumber textToNumber v =
     (case v of
        JNull \<Rightarrow> Some (Num 0)
      | JBool b \<Rightarrow> Some (Num (if b then 1 else 0))
      | JNum x \<Rightarrow> Some (Num x)
      | JObj fs \<Rightarrow> if ''toString'' \<in> set (map fst fs) then None else Some NaN
      | _ \<Rightarrow> textToNumber v)"

definition Math_min :: "jsnum \<Rightarrow> jsnum \<Rightarrow> jsnum" where
  "Math_min a b = (case (a, b) of (Num x, Num y) \<Rightarrow> Num (min x y) | _ \<Rightarrow> NaN)"

text \<open>The comparison \<open>a <= b\<close> on numbers of the source: false when either is \<open>NaN\<close>.\<close>

definition js_le :: "jsnum \<Rightarrow> jsnum \<Rightarrow> bool" where
  "js_le a b = (case (a, b) of (Num x, Num y) \<Rightarrow> x \<le> y | _ \<Rightarrow> False)"

text \<open>Whitespace is the ASCII part of what \<open>trim\<close> removes.\<close>

definition isSpace :: "char \<Rightarrow> bool" where
  "isSpace c = (c \<in> set [CHR '' '', CHR 0x09, CHR 0x0A, CHR 0x0B, CHR 0x0C, CHR 0x0D])"

definition trim :: "string \<Rightarrow> string" where
  "trim s = rev (dropWhile isSpace (rev (dropWhile isSpace s)))"

definition startsWith :: "string \<Rightarrow> string \<Rightarrow> bool" where
  "startsWith s p = (take (length p) s = p)"

definition endsWith :: "string \<Rightarrow> string \<Rightarrow> bool" where
  "endsWith s p = (length p \<le> length s \<and> drop (length s - length p) s = p)"

definition fence :: string where
  "fence = [CHR 0x60, CHR 0x60, CHR 0x60]"

definition cleanContent :: "string \<Rightarrow> string" where
  "cleanContent content =
     (let c0 = trim content;
          c1 = (if startsWith c0 (fence @ ''json'') then drop 7 c0 else c0);
          c2 = (if startsWith c1 fence then drop 3 c1 else c1);
          c3 = (if endsWith c2 fence then take (length c2 - 3) c2 else c2)
      in trim c3)"

text \<open>
  The object \<open>parseTradeAction\<close> returns, with the values it holds at run time: the fields
  taken from the response are whatever JSON the provider wrote there.
\<close>

record RawTradeAction =
  raw_action :: ActionKind
  raw_market_id :: json
  raw_side :: json
  raw_size_usd :: jsnum
  raw_max_price :: json
  raw_reasoning :: json

definition actionTag :: "json option \<Rightarrow> ActionKind option" where
  "actionTag v =
     (if v = Some (JStr ''BUY'') then Some BUY
      else if v = Some (JStr ''SELL'') then Some SELL
      else if v = Some (JStr ''HOLD'') then Some HOLD
      else None)"

text \<open>
  \<open>parseTradeAction\<close>, with \<open>JSON.parse\<close> as a parameter (\<open>None\<close> when it throws). Every
  exception inside is caught and gives \<open>null\<close>: the syntax error of the parser, the type
  error of reading a property of \<open>null\<close>, and the type error of \<open>Math.min\<close>.
\<close>

definition parseTradeAction ::
  "(string \<Rightarrow> json option) \<Rightarrow> (json \<Rightarrow> jsnum option) \<Rightarrow> string \<Rightarrow> RawTradeAction option" where
  "parseTradeAction JSON_parse textToNumber content =
     (case JSON_parse (cleanContent content) of
        None \<Rightarrow> None
      | Some JNull \<Rightarrow> None
      | Some parsed \<Rightarrow>
         (if \<not> present (getProp parsed ''action'') then None
          else case actionTag (getProp parsed ''action'') of
            None \<Rightarrow> None
          | Some HOLD \<Rightarrow>
              Some \<lparr>raw_action = HOLD,
                    raw_market_id = orElse (getProp parsed ''market_id'') (JStr []),
                    raw_side = orElse (getProp parsed ''side'') (JStr ''YES''),
                    raw_size_usd = Num 0,
                    raw_max_price = JNum 0,
                    raw_reasoning = orElse (getProp parsed ''reasoning'') (JStr ''No action taken'')\<rparr>
          | Some act \<Rightarrow>
              (case (getProp parsed ''market_id'', getProp parsed ''side'', getProp parsed ''size_usd'') of
                 (Some m, Some sd, Some sz) \<Rightarrow>
                   if \<not> truthy m \<or> \<not> truthy sd \<or> \<not> truthy sz then None
                   else
                     (case ToNumber textToNumber sz of
                        None \<Rightarrow> None
                      | Some n \<Rightarrow>
                          Some \<lparr>raw_action = act,
                                raw_market_id = m,
                                raw_side = sd,
                                raw_size_usd = Math_min n (Num 50),
                                raw_max_price = orElse (getProp parsed ''max_price'') (JNum 1),
                                raw_reasoning =
                                  orElse (getProp parsed ''reasoning'')
                                    (JStr ''No reasoning provided'')\<rparr>)
               | _ \<Rightarrow> None)))"

section \<open>Scheduler\<close>

text \<open>
  What a cycle receives from outside: the credentials, the clock, the data collector (it
  throws, or returns the refreshed markets table and the number of markets collected),
  whether formatting the brief throws, what each agent's provider call yields (it throws, or
  returns the text of the answer, or no text), \<open>JSON.parse\<close> and the reading of strings
  and arrays as numbers, and which of the awaited storage calls throw. An exception is its
  message.

  The executor is modelled on actions whose fields have the declared types.
  \<open>parseTradeAction\<close> can return an action with other values in its fields. What
  \<open>executeTrade\<close> returns for such an action, and what it then leaves in the tables it
  writes (the agents, the trades, the positions, the metrics, and the row counter), is left
  open as the parameter \<open>executeUntyped\<close>; that it writes no other table is kept.
\<close>

record ExecutorWrites =
  wAgents :: "Agent list"
  wTrades :: "Trade list"
  wPositions :: "Position list"
  wMetrics :: "PerformanceMetrics list"
  wNextId :: rowid

datatype CallSite =
    CreateCycleCall
  | DecisionsGetAgents
  | DecisionGetPositions string
  | TradeGetAgent string
  | CompletedUpdateCycle
  | SummaryGetAgentsMetrics
  | SummaryGetLastCycle
  | FailedUpdateCycle

record CycleEnv =
  credentials :: Credentials
  now :: nat
  collectAll :: "Market list \<Rightarrow> string + (Market list \<times> nat)"
  formatForAgentsError :: "string option"
  providerResponse :: "Agent \<Rightarrow> string + string option"
  parseJSON :: "string \<Rightarrow> json option"
  readNumber :: "json \<Rightarrow> jsnum option"
  executeUntyped :: "store \<Rightarrow> string \<Rightarrow> RawTradeAction \<Rightarrow> ExecutorWrites \<times> ExecutionResult"
  throws :: "CallSite \<Rightarrow> bool"

record AgentDecision =
  dAgentId :: string
  dAgentName :: string
  tradeAction :: "RawTradeAction option"
  dError :: "string option"

text \<open>
  The four provider calls (\<open>callOpenAI\<close>, \<open>callXAI\<close>, \<open>callAnthropic\<close>,
  \<open>callGemini\<close>) in one: an answer without text gives \<open>null\<close>, any other is parsed. The
  Anthropic call hands an empty text to the parser, the others return \<open>null\<close> for it.
\<close>

definition callProvider :: "CycleEnv \<Rightarrow> Agent \<Rightarrow> string + RawTradeAction option" where
  "callProvider env agent =
     (case providerResponse env agent of
        Inl e \<Rightarrow> Inl e
      | Inr None \<Rightarrow> Inr None
      | Inr (Some content) \<Rightarrow>
          if content = [] \<and> aProvider agent \<noteq> ''anthropic'' then Inr None
          else Inr (parseTradeAction (parseJSON env) (readNumber env) content))"

definition getAgentDecision :: "CycleEnv \<Rightarrow> Agent \<Rightarrow> string + RawTradeAction option" where
  "getAgentDecision env agent =
     (if throws env (DecisionGetPositions (aId agent)) then Inl ''getPositionsByAgent''
      else if aProvider agent \<in> set [''openai'', ''xai'', ''anthropic'', ''google'']
      then callProvider env agent
      else Inl ''Unknown provider'')"

text \<open>
  The action as the executor's input, when each field holds a value of its declared type.
\<close>

definition typedAction :: "RawTradeAction \<Rightarrow> TradeAction option" where
  "typedAction raw =
     (case (raw_market_id raw, raw_side raw, raw_size_usd raw, raw_max_price raw,
            raw_reasoning raw) of
        (JStr m, JStr sd, Num x, JNum mp, JStr rs) \<Rightarrow>
          Some \<lparr>action = raw_action raw, market_id = m, side = sd, size_usd = x,
                 max_price = mp, reasoning = rs\<rparr>
      | _ \<Rightarrow> None)"

definition executeAction ::
  "CycleEnv \<Rightarrow> store \<Rightarrow> string \<Rightarrow> RawTradeAction \<Rightarrow> store \<times> ExecutionResult" where
  "executeAction env st agentId raw =
     (case typedAction raw of
        Some a \<Rightarrow> executeTrade (credentials env) st agentId a
      | None \<Rightarrow>
          (let (w, result) = executeUntyped env st agentId raw
           in (st\<lparr>agents := wAgents w, trades := wTrades w, positions := wPositions w,
                  performanceMetrics := wMetrics w, nextId := wNextId w\<rparr>, result)))"

text \<open>The source orders the agents by name; no statement below depends on the order.\<close>

definition getAgents :: "store \<Rightarrow> Agent list" where
  "getAgents st = agents st"

definition getLatestMetrics :: "store \<Rightarrow> PerformanceMetrics list" where
  "getLatestMetrics st =
     concat (map (\<lambda>agent. case rev (filter (\<lambda>m. pmAgentId m = aId agent) (performanceMetrics st)) of
                            [] \<Rightarrow> []
                          | latest # _ \<Rightarrow> [latest])
                 (getAgents st))"

definition getLastCycle :: "store \<Rightarrow> TickCycle option" where
  "getLastCycle st =
     (case tickCycles st of
        [] \<Rightarrow> None
      | c # cs \<Rightarrow> Some (foldl (\<lambda>best x. if cCycleNumber x > cCycleNumber best then x else best) c cs))"

definition createCycle :: "store \<Rightarrow> nat \<Rightarrow> string \<Rightarrow> nat \<Rightarrow> nat \<Rightarrow> nat \<Rightarrow> store \<times> TickCycle" where
  "createCycle st n stat mp te ec =
     (let c = \<lparr>cId = nextId st, cCycleNumber = n, cStatus = stat, cCompletedAt = None,
                cMarketsProcessed = mp, cTradesExecuted = te, cErrorCount = ec\<rparr>
      in (st\<lparr>tickCycles := tickCycles st @ [c], nextId := Suc (nextId st)\<rparr>, c))"

definition updateCycle :: "store \<Rightarrow> rowid \<Rightarrow> string \<Rightarrow> nat \<Rightarrow> nat \<Rightarrow> nat \<Rightarrow> nat \<Rightarrow> store" where
  "updateCycle st i stat stamp mp te ec =
     st\<lparr>tickCycles := map (\<lambda>c. if cId c = i
                                then c\<lparr>cStatus := stat, cCompletedAt := Some stamp,
                                       cMarketsProcessed := mp, cTradesExecuted := te,
                                       cErrorCount := ec\<rparr>
                                else c) (tickCycles st)\<rparr>"

definition broadcast :: "store \<Rightarrow> Broadcast \<Rightarrow> store" where
  "broadcast st msg = st\<lparr>broadcasts := broadcasts st @ [msg]\<rparr>"

definition getDecisions :: "CycleEnv \<Rightarrow> store \<Rightarrow> string + AgentDecision list" where
  "getDecisions env st =
     (if throws env DecisionsGetAgents then Inl ''getAgents''
      else Inr (concat (map (\<lambda>agent.
             if \<not> isActive agent then []
             else [case getAgentDecision env agent of
                     Inr ta \<Rightarrow> \<lparr>dAgentId = aId agent, dAgentName = aName agent,
                                tradeAction = ta, dError = None\<rparr>
                   | Inl e \<Rightarrow> \<lparr>dAgentId = aId agent, dAgentName = aName agent,
                               tradeAction = None, dError = Some e\<rparr>])
           (getAgents st))))"

text \<open>The counters \<open>runCycle\<close> keeps in local variables.\<close>

record Counters =
  marketsProcessed :: nat
  tradesExecuted :: nat
  errorCount :: nat

text \<open>
  Step 4 of the cycle, the loop over the decisions. It returns the store and the counters
  as they are when the loop ends or when an exception leaves it.
\<close>

fun executeDecisions ::
  "CycleEnv \<Rightarrow> AgentDecision list \<Rightarrow> store \<Rightarrow> Counters \<Rightarrow> store \<times> Counters \<times> string option" where
  "executeDecisions env [] st k = (st, k, None)"
| "executeDecisions env (decision # rest) st k =
     (if (case dError decision of None \<Rightarrow> False | Some e \<Rightarrow> e \<noteq> [])
      then executeDecisions env rest st (k\<lparr>errorCount := Suc (errorCount k)\<rparr>)
      else case tradeAction decision of
        None \<Rightarrow> executeDecisions env rest st k
      | Some a \<Rightarrow>
         if raw_action a = HOLD then executeDecisions env rest st k
         else
           (let (st1, result) = executeAction env st (dAgentId decision) a
            in if success result then
                 (let k1 = k\<lparr>tradesExecuted := Suc (tradesExecuted k)\<rparr>
                  in if throws env (TradeGetAgent (dAgentId decision))
                     then (st1, k1, Some ''getAgent'')
                     else
                       (case (getAgent st1 (dAgentId decision), trade result) of
                          (Some agent, Some tr) \<Rightarrow>
                            executeDecisions env rest (broadcast st1 (NewTrade tr agent)) k1
                        | _ \<Rightarrow> executeDecisions env rest st1 k1))
               else executeDecisions env rest st1 (k\<lparr>errorCount := Suc (errorCount k)\<rparr>)))"

text \<open>
  The \<open>try\<close> block of \<open>runCycle\<close>. The third component is the exception that leaves the
  block, if any; the store and the counters are those the handler then sees.
\<close>

definition cycleBody :: "CycleEnv \<Rightarrow> store \<Rightarrow> TickCycle \<Rightarrow> store \<times> Counters \<times> string option" where
  "cycleBody env st cycle =
     (let k0 = \<lparr>marketsProcessed = 0, tradesExecuted = 0, errorCount = 0\<rparr> in
      case collectAll env (markets st) of
        Inl e \<Rightarrow> (st, k0, Some e)
      | Inr (ms, n) \<Rightarrow>
         (let st1 = st\<lparr>markets := ms\<rparr>;
              k1 = k0\<lparr>marketsProcessed := n\<rparr>
          in case formatForAgentsError env of
               Some e \<Rightarrow> (st1, k1, Some e)
             | None \<Rightarrow>
                (case getDecisions env st1 of
                   Inl e \<Rightarrow> (st1, k1, Some e)
                 | Inr decisions \<Rightarrow>
                    (case executeDecisions env decisions st1 k1 of
                       (st2, k2, Some e) \<Rightarrow> (st2, k2, Some e)
                     | (st2, k2, None) \<Rightarrow>
                        (let st3 = updatePositionValues st2 in
                         if throws env CompletedUpdateCycle then (st3, k2, Some ''updateCycle'')
                         else
                           (let st4 = updateCycle st3 (cId cycle) ''completed'' (now env)
                                        (marketsProcessed k2) (tradesExecuted k2) (errorCount k2)
                            in if throws env SummaryGetAgentsMetrics
                               then (st4, k2, Some ''getAgents'')
                               else if throws env SummaryGetLastCycle
                               then (st4, k2, Some ''getLastCycle'')
                               else
                                 (case getLastCycle st4 of
                                    None \<Rightarrow> (st4, k2, None)
                                  | Some completedCycle \<Rightarrow>
                                     (broadcast st4
                                        (CycleComplete completedCycle (tradesExecuted k2)
                                           (marketsProcessed k2) (getAgents st4)
                                           (getLatestMetrics st4)),
                                      k2, None))))))))"

text \<open>
  \<open>runCycle\<close>: the second component is the exception that reaches the caller (the timer),
  \<open>None\<close> when the promise resolves.
\<close>

definition runCycle :: "CycleEnv \<Rightarrow> store \<Rightarrow> store \<times> string option" where
  "runCycle env st0 =
     (let st = st0\<lparr>cycleNumber := Suc (cycleNumber st0)\<rparr> in
      if throws env CreateCycleCall then (st, Some ''createCycle'')
      else
        (let (st1, cycle) = createCycle st (cycleNumber st) ''running'' 0 0 0;
             st2 = broadcast st1 (CycleStart cycle)
         in case cycleBody env st2 cycle of
              (st3, k, None) \<Rightarrow> (st3, None)
            | (st3, k, Some e) \<Rightarrow>
               if throws env FailedUpdateCycle then (st3, Some ''updateCycle'')
               else (updateCycle st3 (cId cycle) ''failed'' (now env)
                       (marketsProcessed k) (tradesExecuted k) (Suc (errorCount k)), None)))"

section \<open>Auxiliary definitions for the statements\<close>

text \<open>
  The positions table after the BUY branch of \<open>simulateTrade\<close>, as a function of the table
  before it: \<open>n\<close> is the next free row identifier, \<open>sz\<close> the size in USD.
\<close>

definition buyPositions ::
  "Position list \<Rightarrow> rowid \<Rightarrow> string \<Rightarrow> string \<Rightarrow> string \<Rightarrow> real \<Rightarrow> real \<Rightarrow> Position list" where
  "buyPositions ps n ai mi sd sz price =
     (case find (\<lambda>p. pAgentId p = ai \<and> pMarketId p = mi \<and> pSide p = sd) ps of
        Some ep \<Rightarrow>
          map (\<lambda>p. if pId p = pId ep
                    then p\<lparr>shares := shares ep + sz / price,
                           entryPrice := (shares ep * entryPrice ep + sz) / (shares ep + sz / price),
                           currentValue := Some ((shares ep + sz / price) * price)\<rparr>
                    else p) ps
      | None \<Rightarrow>
          ps @ [\<lparr>pId = n, pAgentId = ai, pMarketId = mi, pSide = sd, shares = sz / price,
                 entryPrice = price, currentValue = Some sz, unrealizedPnl = Some 0\<rparr>])"

text \<open>The same for the SELL branch.\<close>

definition sellPositions ::
  "Position list \<Rightarrow> string \<Rightarrow> string \<Rightarrow> string \<Rightarrow> real \<Rightarrow> real \<Rightarrow> Position list" where
  "sellPositions ps ai mi sd sz price =
     (case find (\<lambda>p. pAgentId p = ai \<and> pMarketId p = mi \<and> pSide p = sd) ps of
        Some ep \<Rightarrow>
          if shares ep - sz / price \<le> 1 / 1000
          then filter (\<lambda>p. pId p \<noteq> pId ep) ps
          else map (\<lambda>p. if pId p = pId ep
                         then p\<lparr>shares := shares ep - sz / price,
                                currentValue := Some ((shares ep - sz / price) * price)\<rparr>
                         else p) ps
      | None \<Rightarrow> ps)"

definition isAlertMessage :: "Broadcast \<Rightarrow> bool" where
  "isAlertMessage msg = (case msg of AlertMessage al \<Rightarrow> True | _ \<Rightarrow> False)"

section \<open>The scenario of the specification\<close>

text \<open>
  An agent with initial capital 500, a market with liquidity 5000, no credentials in the
  environment (simulation mode).
\<close>

definition noCredentials :: Credentials where
  "noCredentials =
     \<lparr>POLYMARKET_PRIVATE_KEY = False, POLYMARKET_API_KEY = False,
      POLYMARKET_API_SECRET = False, POLYMARKET_PASSPHRASE = False\<rparr>"

definition scenarioAgent :: "real \<Rightarrow> Agent" where
  "scenarioAgent balance =
     \<lparr>aId = ''a1'', aName = ''GPT-5'', aProvider = ''openai'', initialBalance = 500,
      currentBalance = balance, isActive = True\<rparr>"

definition scenarioMarket :: "real \<Rightarrow> Market" where
  "scenarioMarket yes =
     \<lparr>mId = ''m1'', liquidity = Some 5000, yesPrice = Some yes, noPrice = Some (1 - yes),
      isResolved = False\<rparr>"

definition scenarioStore :: store where
  "scenarioStore =
     \<lparr>agents = [scenarioAgent 500], markets = [scenarioMarket (4 / 10)], trades = [],
      positions = [], performanceMetrics = [], tickCycles = [], alerts = [], nextId = 0,
      broadcasts = [], cycleNumber = 0\<rparr>"

definition scenarioAction :: "ActionKind \<Rightarrow> real \<Rightarrow> TradeAction" where
  "scenarioAction kind sz =
     \<lparr>action = kind, market_id = ''m1'', side = ''YES'', size_usd = sz, max_price = 1,
      reasoning = ''scenario''\<rparr>"

text \<open>
  The agent after its BUY of 50 at 0.40, with the market now at 0.50: capital 450 and a
  position of 125 shares entered at 0.40.
\<close>

definition heldPosition :: Position where
  "heldPosition =
     \<lparr>pId = 1, pAgentId = ''a1'', pMarketId = ''m1'', pSide = ''YES'', shares = 125,
      entryPrice = 4 / 10, currentValue = Some 50, unrealizedPnl = Some 0\<rparr>"

definition heldStore :: store where
  "heldStore =
     \<lparr>agents = [scenarioAgent 450], markets = [scenarioMarket (1 / 2)], trades = [],
      positions = [heldPosition], performanceMetrics = [], tickCycles = [], alerts = [],
      nextId = 2, broadcasts = [], cycleNumber = 0\<rparr>"

text \<open>
  A cycle environment in which the collector keeps the markets table, every agent's provider
  call yields \<open>answer\<close>, and the storage calls at the listed sites throw. Its
  \<open>JSON.parse\<close> knows no text, and it rejects an action outside the declared types
  without touching the store.
\<close>

definition rejectUntyped ::
  "store \<Rightarrow> string \<Rightarrow> RawTradeAction \<Rightarrow> ExecutorWrites \<times> ExecutionResult" where
  "rejectUntyped st agentId raw =
     (\<lparr>wAgents = agents st, wTrades = trades st, wPositions = positions st,
       wMetrics = performanceMetrics st, wNextId = nextId st\<rparr>,
      \<lparr>success = False, trade = None, error = None\<rparr>)"

definition scenarioEnv :: "(Agent \<Rightarrow> string + string option) \<Rightarrow> CallSite list \<Rightarrow> CycleEnv" where
  "scenarioEnv answer failing =
     \<lparr>credentials = noCredentials, now = 7, collectAll = (\<lambda>ms. Inr (ms, length ms)),
      formatForAgentsError = None, providerResponse = answer, parseJSON = (\<lambda>s. None),
      readNumber = (\<lambda>v. Some NaN), executeUntyped = rejectUntyped,
      throws = (\<lambda>site. site \<in> set failing)\<rparr>"

text \<open>The environment of a cycle whose data collection throws.\<close>

definition outageEnv :: "CallSite list \<Rightarrow> CycleEnv" where
  "outageEnv failing =
     \<lparr>credentials = noCredentials, now = 7, collectAll = (\<lambda>ms. Inl ''getMarkets''),
      formatForAgentsError = None, providerResponse = (\<lambda>agent. Inr None),
      parseJSON = (\<lambda>s. None), readNumber = (\<lambda>v. Some NaN), executeUntyped = rejectUntyped,
      throws = (\<lambda>site. site \<in> set failing)\<rparr>"

text \<open>The scenario's BUY of 50 at 0.40, then a second BUY of 50 once the market is at 0.50.\<close>

definition afterFirstBuy :: store where
  "afterFirstBuy = fst (executeTrade noCredentials scenarioStore ''a1'' (scenarioAction BUY 50))"

definition afterSecondBuy :: store where
  "afterSecondBuy =
     fst (executeTrade noCredentials (afterFirstBuy\<lparr>markets := [scenarioMarket (1 / 2)]\<rparr>) ''a1''
            (scenarioAction BUY 50))"

text \<open>
  A provider response whose \<open>size_usd\<close> is an object, as text and as the value
  \<open>JSON.parse\<close> reads from it, and a \<open>JSON.parse\<close> that knows this one text.
\<close>

definition quoted :: "string \<Rightarrow> string" where
  "quoted s = CHR 0x22 # s @ [CHR 0x22]"

definition objectSizeText :: string where
  "objectSizeText =
     ''{'' @ quoted ''action'' @ '':'' @ quoted ''BUY'' @ '','' @
     quoted ''market_id'' @ '':'' @ quoted ''m1'' @ '','' @
     quoted ''side'' @ '':'' @ quoted ''YES'' @ '','' @
     quoted ''size_usd'' @ '':{'' @ quoted ''amount'' @ '':100}}''"

definition objectSizeValue :: json where
  "objectSizeValue =
     JObj [(''action'', JStr ''BUY''), (''market_id'', JStr ''m1''), (''side'', JStr ''YES''),
           (''size_usd'', JObj [(''amount'', JNum 100)])]"

definition readsAs :: "string \<Rightarrow> json \<Rightarrow> string \<Rightarrow> json option" where
  "readsAs text v s = (if s = text then Some v else None)"

text \<open>A response with a numeric \<open>size_usd\<close>, read by a \<open>JSON.parse\<close> that knows it.\<close>

definition numericSizeValue :: "real \<Rightarrow> json" where
  "numericSizeValue x =
     JObj [(''action'', JStr ''BUY''), (''market_id'', JStr ''m1''), (''side'', JStr ''YES''),
           (''size_usd'', JNum x)]"

definition numericSizeText :: "string \<Rightarrow> string" where
  "numericSizeText digits =
     ''{'' @ quoted ''action'' @ '':'' @ quoted ''BUY'' @ '','' @
     quoted ''market_id'' @ '':'' @ quoted ''m1'' @ '','' @
     quoted ''side'' @ '':'' @ quoted ''YES'' @ '','' @
     quoted ''size_usd'' @ '':'' @ digits @ ''}''"

text \<open>The same response inside a fenced code block.\<close>

definition fencedObjectSizeText :: string where
  "fencedObjectSizeText = fence @ ''json'' @ [CHR 0x0A] @ objectSizeText @ [CHR 0x0A] @ fence"



text \<open>
  The action \<open>parseTradeAction\<close> returns for such a response, with size \<open>x\<close>, and the
  same action as the executor's input.
\<close>

definition responseRaw :: "real \<Rightarrow> RawTradeAction" where
  "responseRaw x =
     \<lparr>raw_action = BUY, raw_market_id = JStr ''m1'', raw_side = JStr ''YES'',
      raw_size_usd = Num x, raw_max_price = JNum 1,
      raw_reasoning = JStr ''No reasoning provided''\<rparr>"

definition responseAction :: "real \<Rightarrow> TradeAction" where
  "responseAction x =
     \<lparr>action = BUY, market_id = ''m1'', side = ''YES'', size_usd = x, max_price = 1,
      reasoning = ''No reasoning provided''\<rparr>"

text \<open>
  A cycle environment in which every agent's provider answers \<open>text\<close> and \<open>JSON.parse\<close>
  reads it as \<open>v\<close>.
\<close>

definition responseEnv :: "string \<Rightarrow> json \<Rightarrow> CycleEnv" where
  "responseEnv text v = (scenarioEnv (\<lambda>agent. Inr (Some text)) [])\<lparr>parseJSON := readsAs text v\<rparr>"

text \<open>
  The store and the cycle row with which \<open>runCycle\<close> enters its \<open>try\<close> block when it
  starts from the scenario's store.
\<close>

definition startedCycle :: TickCycle where
  "startedCycle =
     \<lparr>cId = 0, cCycleNumber = 1, cStatus = ''running'', cCompletedAt = None,
      cMarketsProcessed = 0, cTradesExecuted = 0, cErrorCount = 0\<rparr>"

definition startedStore :: store where
  "startedStore =
     scenarioStore\<lparr>tickCycles := [startedCycle], nextId := 1,
                   broadcasts := [CycleStart startedCycle], cycleNumber := 1\<rparr>"

text \<open>
  Two stores with the same alerts, the same alert messages among the broadcasts and the same
  cycle rows.
\<close>

definition quiet :: "store \<Rightarrow> store \<Rightarrow> bool" where
  "quiet s s' \<longleftrightarrow> alerts s' = alerts s
     \<and> filter isAlertMessage (broadcasts s') = filter isAlertMessage (broadcasts s)
     \<and> tickCycles s' = tickCycles s"

section \<open>Properties of the trade executor\<close>

lemma getAgent_aId: "getAgent st i = Some a \<Longrightarrow> aId a = i"
  by (auto simp: getAgent_def find_Some_iff)

lemma getMarket_mId: "getMarket st i = Some m \<Longrightarrow> mId m = i"
  by (auto simp: getMarket_def find_Some_iff)

lemma executeTrade_invalid:
  "validateTrade st agentId a = Some e \<Longrightarrow>
     executeTrade env st agentId a = (st, \<lparr>success = False, trade = None, error = Some e\<rparr>)"
  by (simp add: executeTrade_def)

lemma validateTrade_insufficient_balance:
  assumes "getAgent st agentId = Some agent" and "action a = BUY"
    and "size_usd a > currentBalance agent"
  shows "validateTrade st agentId a \<noteq> None"
  using assms by (simp add: validateTrade_def split: option.splits)

lemma validateTrade_insufficient_position:
  assumes "getPosition st agentId (market_id a) (side a) = Some p"
    and "shares p * entryPrice p < size_usd a" and "action a = SELL"
  shows "validateTrade st agentId a \<noteq> None"
  using assms by (simp add: validateTrade_def split: option.splits)

lemmas scenario_defs =
  scenarioStore_def scenarioAgent_def scenarioMarket_def scenarioAction_def noCredentials_def
  heldStore_def heldPosition_def

lemmas executor_defs =
  executeTrade_def validateTrade_def getAgent_def getMarket_def getPosition_def
  maxTradePercent_def minLiquidity_def marketPrice_def isSimulation_def createTrade_def
  simulateTrade_def updateAgentBalance_def createPosition_def updatePosition_def
  deletePosition_def updateTradeStatus_def

text \<open>
  Claim C1, as the code has it. A BUY whose \<open>size_usd\<close> exceeds the current balance of an
  existing agent is rejected by \<open>validateTrade\<close>: \<open>executeTrade\<close> returns \<open>success = false\<close>
  with the validation error and no trade, and the store it returns is the store it was given,
  so no Trade row is written and the balance is unchanged.
\<close>

theorem buy_exceeding_balance_rejected:
  assumes "getAgent st agentId = Some agent" and "action a = BUY"
    and "size_usd a > currentBalance agent"
  shows "executeTrade env st agentId a =
           (st, \<lparr>success = False, trade = None, error = validateTrade st agentId a\<rparr>)
       \<and> validateTrade st agentId a \<noteq> None"
proof -
  from validateTrade_insufficient_balance[OF assms]
  obtain e where e: "validateTrade st agentId a = Some e" by auto
  with executeTrade_invalid[OF e, of env] show ?thesis by simp
qed

text \<open>The scenario's agent with balance 500 and a BUY of 600.\<close>

theorem buy_exceeding_balance_rejected_witness:
  "getAgent scenarioStore ''a1'' = Some (scenarioAgent 500)
   \<and> action (scenarioAction BUY 600) = BUY
   \<and> size_usd (scenarioAction BUY 600) > currentBalance (scenarioAgent 500)
   \<and> executeTrade noCredentials scenarioStore ''a1'' (scenarioAction BUY 600) =
       (scenarioStore,
        \<lparr>success = False, trade = None, error = Some (InsufficientBalance 500)\<rparr>)"
proof -
  have h1: "getAgent scenarioStore ''a1'' = Some (scenarioAgent 500)"
    by (simp add: getAgent_def scenario_defs)
  have h2: "action (scenarioAction BUY 600) = BUY"
    by (simp add: scenarioAction_def)
  have h3: "size_usd (scenarioAction BUY 600) > currentBalance (scenarioAgent 500)"
    by (simp add: scenario_defs)
  have v: "validateTrade scenarioStore ''a1'' (scenarioAction BUY 600) =
             Some (InsufficientBalance 500)"
    by (simp add: validateTrade_def getAgent_def getMarket_def scenario_defs)
  from buy_exceeding_balance_rejected[OF h1 h2 h3, of noCredentials] h1 h2 h3 v
  show ?thesis by simp
qed

text \<open>
  Claim C1 as stated asks for a Trade record with status \<open>failed\<close>. For the BUY of 600 the
  result carries no trade and the trades table stays empty.
\<close>

theorem buy_exceeding_balance_no_trade_record:
  "executeTrade noCredentials scenarioStore ''a1'' (scenarioAction BUY 600) =
     (scenarioStore, \<lparr>success = False, trade = None, error = Some (InsufficientBalance 500)\<rparr>)
   \<and> trades scenarioStore = []"
  by (simp add: executeTrade_def validateTrade_def getAgent_def getMarket_def scenario_defs)

text \<open>
  Claim C2 as stated: the SELL of the 125 shares for 62.5 at market price 0.50. With initial
  capital 500 the size exceeds the cap of 50, the SELL is rejected, and capital and position
  stay as they were.
\<close>

theorem scenario_sell_rejected:
  "executeTrade noCredentials heldStore ''a1'' (scenarioAction SELL (125 / 2)) =
     (heldStore, \<lparr>success = False, trade = None, error = Some ExceedsLimit\<rparr>)
   \<and> map currentBalance (agents heldStore) = [450]
   \<and> map shares (positions heldStore) = [125]"
  by (simp add: executeTrade_def validateTrade_def getAgent_def getMarket_def scenario_defs
      maxTradePercent_def)

text \<open>
  Claim C2, as the code has it. A SELL of 62.5 against a position of 125 shares entered at
  0.40 fails validation in every store, whatever the cap, because the position is valued at
  its entry price (50); \<open>executeTrade\<close> returns the store unchanged. The execution step
  \<open>simulateTrade\<close> alone, on the scenario's state, credits 62.5 (capital 512.5) and
  deletes the position.
\<close>

theorem sell_above_entry_value_rejected:
  assumes "getPosition st agentId (market_id a) (side a) = Some p"
    and "shares p = 125" and "entryPrice p = 4 / 10"
    and "action a = SELL" and "size_usd a = 125 / 2"
  shows "executeTrade env st agentId a =
           (st, \<lparr>success = False, trade = None, error = validateTrade st agentId a\<rparr>)
       \<and> validateTrade st agentId a \<noteq> None
       \<and> simulateTrade heldStore (scenarioAgent 450) (scenarioMarket (1 / 2))
            (scenarioAction SELL (125 / 2)) 125 (1 / 2) =
           (heldStore\<lparr>agents := [scenarioAgent (1025 / 2)], positions := []\<rparr>, True)"
proof -
  have "shares p * entryPrice p < size_usd a"
    using assms by simp
  from validateTrade_insufficient_position[OF assms(1) this assms(4)]
  obtain e where e: "validateTrade st agentId a = Some e" by auto
  have sim: "simulateTrade heldStore (scenarioAgent 450) (scenarioMarket (1 / 2))
            (scenarioAction SELL (125 / 2)) 125 (1 / 2) =
           (heldStore\<lparr>agents := [scenarioAgent (1025 / 2)], positions := []\<rparr>, True)"
    by (simp add: simulateTrade_def updateAgentBalance_def getPosition_def deletePosition_def
        scenario_defs)
  from executeTrade_invalid[OF e, of env] e sim show ?thesis by simp
qed

text \<open>The scenario's store with the held position.\<close>

theorem sell_above_entry_value_rejected_witness:
  "getPosition heldStore ''a1'' (market_id (scenarioAction SELL (125 / 2)))
      (side (scenarioAction SELL (125 / 2))) = Some heldPosition
   \<and> shares heldPosition = 125 \<and> entryPrice heldPosition = 4 / 10
   \<and> action (scenarioAction SELL (125 / 2)) = SELL
   \<and> size_usd (scenarioAction SELL (125 / 2)) = 125 / 2
   \<and> fst (executeTrade noCredentials heldStore ''a1'' (scenarioAction SELL (125 / 2))) = heldStore
   \<and> \<not> success (snd (executeTrade noCredentials heldStore ''a1'' (scenarioAction SELL (125 / 2))))"
proof -
  have h1: "getPosition heldStore ''a1'' (market_id (scenarioAction SELL (125 / 2)))
      (side (scenarioAction SELL (125 / 2))) = Some heldPosition"
    by (simp add: getPosition_def scenario_defs)
  have h2: "shares heldPosition = 125" and h3: "entryPrice heldPosition = 4 / 10"
    by (simp_all add: heldPosition_def)
  have h4: "action (scenarioAction SELL (125 / 2)) = SELL"
    and h5: "size_usd (scenarioAction SELL (125 / 2)) = 125 / 2"
    by (simp_all add: scenarioAction_def)
  from sell_above_entry_value_rejected[OF h1 h2 h3 h4 h5, of noCredentials] h1 h2 h3 h4 h5
  show ?thesis by simp
qed

section \<open>Properties of the trade executor: positions\<close>

lemma positions_updateMetrics: "positions (updateMetrics st ag) = positions st"
  by (simp add: updateMetrics_def createMetrics_def Let_def)

lemma positions_updateTradeStatus: "positions (updateTradeStatus st i s m) = positions st"
  by (simp add: updateTradeStatus_def)

lemma positions_createTrade:
  "positions (fst (createTrade st ai mi act sd sz pr sh rs stat)) = positions st"
  by (simp add: createTrade_def Let_def)

lemma nextId_createTrade:
  "nextId (fst (createTrade st ai mi act sd sz pr sh rs stat)) = Suc (nextId st)"
  by (simp add: createTrade_def Let_def)

lemma positions_simulateTrade_BUY:
  "action a = BUY \<Longrightarrow>
   positions (fst (simulateTrade st agent market a (size_usd a / price) price)) =
     buyPositions (positions st) (nextId st) (aId agent) (mId market) (side a) (size_usd a) price"
  by (simp add: simulateTrade_def buyPositions_def Let_def updateAgentBalance_def getPosition_def
      updatePosition_def createPosition_def split: option.splits)

lemma positions_simulateTrade_SELL:
  "action a = SELL \<Longrightarrow>
   positions (fst (simulateTrade st agent market a shs price)) =
     sellPositions (positions st) (aId agent) (mId market) (side a) (size_usd a) price"
  by (simp add: simulateTrade_def sellPositions_def Let_def updateAgentBalance_def getPosition_def
      updatePosition_def deletePosition_def split: option.splits)

lemma positions_simulateTrade_HOLD:
  "action a = HOLD \<Longrightarrow> positions (fst (simulateTrade st agent market a shs price)) = positions st"
  by (simp add: simulateTrade_def)

lemma simulateTrade_succeeds: "snd (simulateTrade st agent market a shs price)"
  by (simp add: simulateTrade_def Let_def split: option.splits)

text \<open>What an attempted trade does to the positions table.\<close>

lemma executeTrade_positions:
  "positions (fst (executeTrade env st agentId a)) = positions st
   \<or> (\<exists>market. getMarket st (market_id a) = Some market \<and>
        success (snd (executeTrade env st agentId a)) \<and>
        positions (fst (executeTrade env st agentId a)) =
          (if action a = BUY
           then buyPositions (positions st) (Suc (nextId st)) agentId (market_id a) (side a)
                  (size_usd a) (marketPrice market (side a))
           else sellPositions (positions st) agentId (market_id a) (side a) (size_usd a)
                  (marketPrice market (side a))))"
proof (cases "validateTrade st agentId a")
  case (Some e)
  then show ?thesis by (simp add: executeTrade_def)
next
  case None
  show ?thesis
  proof (cases "getAgent st agentId")
    case N: None
    with None show ?thesis by (simp add: executeTrade_def)
  next
    case (Some agent)
    note ag = this
    show ?thesis
    proof (cases "getMarket st (market_id a)")
      case N: None
      with None ag show ?thesis by (simp add: executeTrade_def)
    next
      case (Some market)
      have ids: "aId agent = agentId" "mId market = market_id a"
        using ag Some by (auto dest: getAgent_aId getMarket_mId)
      show ?thesis
      proof (cases "action a")
        case BUY
        with None ag Some ids show ?thesis
          by (auto simp: executeTrade_def Let_def executeRealTrade_def positions_simulateTrade_BUY
              positions_updateMetrics positions_updateTradeStatus positions_createTrade
              nextId_createTrade
              simulateTrade_succeeds case_prod_beta)
      next
        case SELL
        with None ag Some ids show ?thesis
          by (auto simp: executeTrade_def Let_def executeRealTrade_def positions_simulateTrade_SELL
              positions_updateMetrics positions_updateTradeStatus positions_createTrade
              simulateTrade_succeeds case_prod_beta)
      next
        case HOLD
        with None ag Some ids show ?thesis
          by (auto simp: executeTrade_def Let_def executeRealTrade_def positions_simulateTrade_HOLD
              positions_updateMetrics positions_updateTradeStatus positions_createTrade
              simulateTrade_succeeds case_prod_beta)
      qed
    qed
  qed
qed

lemma find_append_None: "find P xs = None \<Longrightarrow> find P (xs @ ys) = find P ys"
  by (induction xs) (auto split: if_splits)

lemma find_map_preserved:
  "(\<And>x. P (g x) = P x) \<Longrightarrow> find P (map g xs) = map_option g (find P xs)"
  by (induction xs) auto

lemma find_buyPositions_new:
  assumes "find (\<lambda>p. pAgentId p = ai \<and> pMarketId p = mi \<and> pSide p = sd) ps = None"
  shows "find (\<lambda>p. pAgentId p = ai \<and> pMarketId p = mi \<and> pSide p = sd)
           (buyPositions ps n ai mi sd sz price) =
         Some \<lparr>pId = n, pAgentId = ai, pMarketId = mi, pSide = sd, shares = sz / price,
               entryPrice = price, currentValue = Some sz, unrealizedPnl = Some 0\<rparr>"
  using assms by (simp add: buyPositions_def find_append_None)

lemma find_buyPositions_existing:
  assumes "find (\<lambda>p. pAgentId p = ai \<and> pMarketId p = mi \<and> pSide p = sd) ps = Some ep"
  shows "find (\<lambda>p. pAgentId p = ai \<and> pMarketId p = mi \<and> pSide p = sd)
           (buyPositions ps n ai mi sd sz price) =
         Some (ep\<lparr>shares := shares ep + sz / price,
                  entryPrice := (shares ep * entryPrice ep + sz) / (shares ep + sz / price),
                  currentValue := Some ((shares ep + sz / price) * price)\<rparr>)"
  using assms by (simp add: buyPositions_def find_map_preserved)

lemma executed_BUY_positions:
  assumes "success (snd (executeTrade env st agentId a))" and "action a = BUY"
    and "getMarket st (market_id a) = Some market"
  shows "positions (fst (executeTrade env st agentId a)) =
           buyPositions (positions st) (Suc (nextId st)) agentId (market_id a) (side a)
             (size_usd a) (marketPrice market (side a))"
proof (cases "validateTrade st agentId a")
  case (Some e)
  with assms show ?thesis by (simp add: executeTrade_def)
next
  case None
  show ?thesis
  proof (cases "getAgent st agentId")
    case N: None
    with None assms show ?thesis by (simp add: executeTrade_def)
  next
    case (Some agent)
    have ids: "aId agent = agentId" "mId market = market_id a"
      using Some assms(3) by (auto dest: getAgent_aId getMarket_mId)
    from assms None Some ids show ?thesis
      by (auto simp: executeTrade_def Let_def executeRealTrade_def positions_simulateTrade_BUY
          positions_updateMetrics positions_updateTradeStatus positions_createTrade
          nextId_createTrade simulateTrade_succeeds case_prod_beta split: if_splits)
  qed
qed

text \<open>
  Claim C3, as the code has it, in exact arithmetic. An executed BUY of size \<open>a\<close> at a
  non-zero price \<open>p1\<close> goes into an empty slot; later, in any store in which the slot's
  position still has the shares and the entry price that BUY left, a BUY of size \<open>b\<close> at
  a non-zero price \<open>p2\<close> is executed into the same slot. If the shares bought,
  \<open>a / p1 + b / p2\<close>, are not zero, the position then holds that many shares at entry
  price \<open>(a + b) / (a / p1 + b / p2)\<close>: the USD paid over the shares bought.
\<close>

theorem two_buys_entry_price:
  assumes first: "executeTrade env st agentId a1 = (st1, r1)" "success r1" "action a1 = BUY"
    and empty: "getPosition st agentId (market_id a1) (side a1) = None"
    and m1: "getMarket st (market_id a1) = Some m1" "marketPrice m1 (side a1) = p1" "p1 \<noteq> 0"
    and between:
      "map_option (\<lambda>q. (shares q, entryPrice q))
         (getPosition st1' agentId (market_id a1) (side a1)) =
       map_option (\<lambda>q. (shares q, entryPrice q))
         (getPosition st1 agentId (market_id a1) (side a1))"
    and second: "executeTrade env' st1' agentId a2 = (st2, r2)" "success r2"
      "action a2 = BUY" "market_id a2 = market_id a1" "side a2 = side a1"
    and m2: "getMarket st1' (market_id a1) = Some m2" "marketPrice m2 (side a1) = p2"
      "p2 \<noteq> 0"
    and bought: "size_usd a1 / p1 + size_usd a2 / p2 \<noteq> 0"
  shows "\<exists>p. getPosition st2 agentId (market_id a1) (side a1) = Some p
           \<and> shares p = size_usd a1 / p1 + size_usd a2 / p2
           \<and> entryPrice p = (size_usd a1 + size_usd a2) / (size_usd a1 / p1 + size_usd a2 / p2)"
proof -
  from executed_BUY_positions[of env st agentId a1 m1] first m1
  have ps1: "positions st1 =
      buyPositions (positions st) (Suc (nextId st)) agentId (market_id a1) (side a1)
        (size_usd a1) p1"
    by simp
  from empty have "getPosition st1 agentId (market_id a1) (side a1) =
      Some \<lparr>pId = Suc (nextId st), pAgentId = agentId, pMarketId = market_id a1,
            pSide = side a1, shares = size_usd a1 / p1, entryPrice = p1,
            currentValue = Some (size_usd a1), unrealizedPnl = Some 0\<rparr>"
    by (simp add: getPosition_def ps1 find_buyPositions_new)
  with between obtain q where
    q: "getPosition st1' agentId (market_id a1) (side a1) = Some q"
      "shares q = size_usd a1 / p1" "entryPrice q = p1"
    by (cases "getPosition st1' agentId (market_id a1) (side a1)") auto
  from executed_BUY_positions[of env' st1' agentId a2 m2] second m2
  have ps2: "positions st2 =
      buyPositions (positions st1') (Suc (nextId st1')) agentId (market_id a1) (side a1)
        (size_usd a2) p2"
    by simp
  from q(1) have "getPosition st2 agentId (market_id a1) (side a1) =
      Some (q\<lparr>shares := shares q + size_usd a2 / p2,
               entryPrice := (shares q * entryPrice q + size_usd a2)
                               / (shares q + size_usd a2 / p2),
               currentValue := Some ((shares q + size_usd a2 / p2) * p2)\<rparr>)"
    by (simp add: getPosition_def ps2 find_buyPositions_existing)
  with q(2,3) \<open>p1 \<noteq> 0\<close> show ?thesis by simp
qed

lemma updateMetrics_frame:
  "agents (updateMetrics st ag) = agents st"
  "markets (updateMetrics st ag) = markets st"
  "trades (updateMetrics st ag) = trades st"
  "nextId (updateMetrics st ag) = nextId st"
  "alerts (updateMetrics st ag) = alerts st"
  "broadcasts (updateMetrics st ag) = broadcasts st"
  "tickCycles (updateMetrics st ag) = tickCycles st"
  "cycleNumber (updateMetrics st ag) = cycleNumber st"
  by (simp_all add: updateMetrics_def createMetrics_def Let_def)

lemma updateTradeStatus_frame:
  "agents (updateTradeStatus st i s m) = agents st"
  "markets (updateTradeStatus st i s m) = markets st"
  "nextId (updateTradeStatus st i s m) = nextId st"
  "alerts (updateTradeStatus st i s m) = alerts st"
  "broadcasts (updateTradeStatus st i s m) = broadcasts st"
  "tickCycles (updateTradeStatus st i s m) = tickCycles st"
  "cycleNumber (updateTradeStatus st i s m) = cycleNumber st"
  "performanceMetrics (updateTradeStatus st i s m) = performanceMetrics st"
  by (simp_all add: updateTradeStatus_def)

lemma simulateTrade_frame:
  "markets (fst (simulateTrade st ag mk a shs price)) = markets st"
  "trades (fst (simulateTrade st ag mk a shs price)) = trades st"
  "alerts (fst (simulateTrade st ag mk a shs price)) = alerts st"
  "broadcasts (fst (simulateTrade st ag mk a shs price)) = broadcasts st"
  "tickCycles (fst (simulateTrade st ag mk a shs price)) = tickCycles st"
  "cycleNumber (fst (simulateTrade st ag mk a shs price)) = cycleNumber st"
  "performanceMetrics (fst (simulateTrade st ag mk a shs price)) = performanceMetrics st"
  by (simp_all add: simulateTrade_def Let_def updateAgentBalance_def updatePosition_def
      createPosition_def deletePosition_def split: option.splits)

lemma createTrade_frame:
  "agents (fst (createTrade st ai mi act sd sz pr sh rs stat)) = agents st"
  "markets (fst (createTrade st ai mi act sd sz pr sh rs stat)) = markets st"
  "alerts (fst (createTrade st ai mi act sd sz pr sh rs stat)) = alerts st"
  "broadcasts (fst (createTrade st ai mi act sd sz pr sh rs stat)) = broadcasts st"
  "tickCycles (fst (createTrade st ai mi act sd sz pr sh rs stat)) = tickCycles st"
  "cycleNumber (fst (createTrade st ai mi act sd sz pr sh rs stat)) = cycleNumber st"
  "performanceMetrics (fst (createTrade st ai mi act sd sz pr sh rs stat)) = performanceMetrics st"
  by (simp_all add: createTrade_def Let_def)

lemma scenario_first_buy:
  "success (snd (executeTrade noCredentials scenarioStore ''a1'' (scenarioAction BUY 50)))"
  by (simp add: executor_defs scenario_defs Let_def case_prod_beta)

lemma scenario_getMarket: "getMarket scenarioStore ''m1'' = Some (scenarioMarket (4 / 10))"
  by (simp add: getMarket_def scenario_defs)

lemma afterFirstBuy_positions: "positions afterFirstBuy = [heldPosition]"
proof -
  have "positions afterFirstBuy =
      buyPositions (positions scenarioStore) (Suc (nextId scenarioStore)) ''a1''
        (market_id (scenarioAction BUY 50)) (side (scenarioAction BUY 50))
        (size_usd (scenarioAction BUY 50))
        (marketPrice (scenarioMarket (4 / 10)) (side (scenarioAction BUY 50)))"
    unfolding afterFirstBuy_def
    by (rule executed_BUY_positions[OF scenario_first_buy])
       (simp_all add: scenarioAction_def scenario_getMarket)
  then show ?thesis
    by (simp add: buyPositions_def scenario_defs marketPrice_def)
qed

lemma executeTrade_success_iff:
  "success (snd (executeTrade env st agentId a)) \<longleftrightarrow>
     validateTrade st agentId a = None
     \<and> (\<exists>agent market. getAgent st agentId = Some agent
            \<and> getMarket st (market_id a) = Some market
            \<and> \<not> (action a = BUY \<and> marketPrice market (side a) > max_price a))
     \<and> (isSimulation env
          \<or> (POLYMARKET_API_KEY env \<and> POLYMARKET_API_SECRET env \<and> POLYMARKET_PASSPHRASE env))"
  by (auto simp: executeTrade_def Let_def executeRealTrade_def simulateTrade_succeeds
      case_prod_beta split: option.splits)

lemma agents_simulateTrade:
  "agents (fst (simulateTrade st agent market a shs price)) =
     (if action a = HOLD then agents st
      else map (\<lambda>x. if aId x = aId agent
                     then x\<lparr>currentBalance :=
                              (if action a = BUY then currentBalance agent - size_usd a
                               else currentBalance agent + size_usd a)\<rparr>
                     else x) (agents st))"
  by (cases "action a")
     (simp_all add: simulateTrade_def Let_def updateAgentBalance_def updatePosition_def
       createPosition_def deletePosition_def split: option.splits)

lemma executed_agents:
  assumes "success (snd (executeTrade env st agentId a))" and "getAgent st agentId = Some agent"
  shows "agents (fst (executeTrade env st agentId a)) =
     (if action a = HOLD then agents st
      else map (\<lambda>x. if aId x = agentId
                     then x\<lparr>currentBalance :=
                              (if action a = BUY then currentBalance agent - size_usd a
                               else currentBalance agent + size_usd a)\<rparr>
                     else x) (agents st))"
proof -
  from assms(1) obtain market where m: "getMarket st (market_id a) = Some market"
    and v: "validateTrade st agentId a = None"
    and pr: "\<not> (action a = BUY \<and> marketPrice market (side a) > max_price a)"
    and cr: "isSimulation env
          \<or> (POLYMARKET_API_KEY env \<and> POLYMARKET_API_SECRET env \<and> POLYMARKET_PASSPHRASE env)"
    by (auto simp: executeTrade_success_iff)
  have ids: "aId agent = agentId" using assms(2) by (rule getAgent_aId)
  from m v pr cr assms(2) ids show ?thesis
    by (auto simp: executeTrade_def Let_def executeRealTrade_def simulateTrade_succeeds
        case_prod_beta updateMetrics_frame updateTradeStatus_frame agents_simulateTrade
        createTrade_frame)
qed

lemma scenario_getAgent: "getAgent scenarioStore ''a1'' = Some (scenarioAgent 500)"
  by (simp add: getAgent_def scenario_defs)

lemma afterFirstBuy_agents: "agents afterFirstBuy = [scenarioAgent 450]"
  unfolding afterFirstBuy_def
  by (simp add: executed_agents[OF scenario_first_buy scenario_getAgent])
     (simp add: scenario_defs)

lemma scenario_second_buy:
  "success (snd (executeTrade noCredentials (afterFirstBuy\<lparr>markets := [scenarioMarket (1 / 2)]\<rparr>)
                  ''a1'' (scenarioAction BUY 50)))"
  by (simp add: executeTrade_success_iff validateTrade_def getAgent_def getMarket_def
      afterFirstBuy_agents afterFirstBuy_positions)
     (simp add: scenario_defs maxTradePercent_def minLiquidity_def marketPrice_def
      isSimulation_def)

lemma afterSecondBuy_positions:
  "positions afterSecondBuy =
     [heldPosition\<lparr>shares := 225, entryPrice := 4 / 9, currentValue := Some (225 / 2)\<rparr>]"
proof -
  have "positions afterSecondBuy =
      buyPositions (positions (afterFirstBuy\<lparr>markets := [scenarioMarket (1 / 2)]\<rparr>))
        (Suc (nextId (afterFirstBuy\<lparr>markets := [scenarioMarket (1 / 2)]\<rparr>))) ''a1''
        (market_id (scenarioAction BUY 50)) (side (scenarioAction BUY 50))
        (size_usd (scenarioAction BUY 50))
        (marketPrice (scenarioMarket (1 / 2)) (side (scenarioAction BUY 50)))"
    unfolding afterSecondBuy_def
    by (rule executed_BUY_positions[OF scenario_second_buy])
       (simp_all add: scenarioAction_def getMarket_def scenarioMarket_def)
  then show ?thesis
    by (simp add: buyPositions_def afterFirstBuy_positions)
       (simp add: scenario_defs marketPrice_def)
qed

text \<open>Two BUYs of 50, at 0.40 and at 0.50: 225 shares at entry price 4/9.\<close>

theorem two_buys_entry_price_witness:
  "executeTrade noCredentials scenarioStore ''a1'' (scenarioAction BUY 50) =
     (afterFirstBuy, snd (executeTrade noCredentials scenarioStore ''a1'' (scenarioAction BUY 50)))
   \<and> success (snd (executeTrade noCredentials scenarioStore ''a1'' (scenarioAction BUY 50)))
   \<and> getPosition scenarioStore ''a1'' ''m1'' ''YES'' = None
   \<and> marketPrice (scenarioMarket (4 / 10)) ''YES'' = 4 / 10
   \<and> marketPrice (scenarioMarket (1 / 2)) ''YES'' = 1 / 2
   \<and> getPosition (afterFirstBuy\<lparr>markets := [scenarioMarket (1 / 2)]\<rparr>) ''a1'' ''m1'' ''YES''
       = getPosition afterFirstBuy ''a1'' ''m1'' ''YES''
   \<and> success (snd (executeTrade noCredentials (afterFirstBuy\<lparr>markets := [scenarioMarket (1 / 2)]\<rparr>)
                     ''a1'' (scenarioAction BUY 50)))
   \<and> (50 / (4 / 10) + 50 / (1 / 2) :: real) \<noteq> 0
   \<and> (\<exists>p. getPosition afterSecondBuy ''a1'' ''m1'' ''YES'' = Some p
          \<and> shares p = 225 \<and> entryPrice p = 4 / 9)"
proof -
  let ?a = "scenarioAction BUY 50"
  let ?st1 = "afterFirstBuy\<lparr>markets := [scenarioMarket (1 / 2)]\<rparr>"
  have f1: "executeTrade noCredentials scenarioStore ''a1'' ?a =
     (afterFirstBuy, snd (executeTrade noCredentials scenarioStore ''a1'' ?a))"
    by (simp add: afterFirstBuy_def)
  have f3: "action ?a = BUY" by (simp add: scenarioAction_def)
  have e: "getPosition scenarioStore ''a1'' (market_id ?a) (side ?a) = None"
    by (simp add: getPosition_def scenario_defs)
  have m1: "getMarket scenarioStore (market_id ?a) = Some (scenarioMarket (4 / 10))"
    by (simp add: scenarioAction_def scenario_getMarket)
  have p1: "marketPrice (scenarioMarket (4 / 10)) (side ?a) = 4 / 10"
    by (simp add: marketPrice_def scenario_defs)
  have nz1: "(4 / 10 :: real) \<noteq> 0" by simp
  have g: "getPosition ?st1 ''a1'' (market_id ?a) (side ?a) =
      getPosition afterFirstBuy ''a1'' (market_id ?a) (side ?a)"
    by (simp add: getPosition_def)
  have btw: "map_option (\<lambda>q. (shares q, entryPrice q))
         (getPosition ?st1 ''a1'' (market_id ?a) (side ?a)) =
       map_option (\<lambda>q. (shares q, entryPrice q))
         (getPosition afterFirstBuy ''a1'' (market_id ?a) (side ?a))"
    by (simp only: g)
  have s1: "executeTrade noCredentials ?st1 ''a1'' ?a =
     (afterSecondBuy, snd (executeTrade noCredentials ?st1 ''a1'' ?a))"
    by (simp add: afterSecondBuy_def)
  have m2: "getMarket ?st1 (market_id ?a) = Some (scenarioMarket (1 / 2))"
    by (simp add: getMarket_def scenario_defs)
  have p2: "marketPrice (scenarioMarket (1 / 2)) (side ?a) = 1 / 2"
    by (simp add: marketPrice_def scenario_defs)
  have nz2: "(1 / 2 :: real) \<noteq> 0" by simp
  have bt: "size_usd ?a / (4 / 10) + size_usd ?a / (1 / 2) \<noteq> 0"
    by (simp add: scenarioAction_def)
  from two_buys_entry_price[OF f1 scenario_first_buy f3 e m1 p1 nz1 btw s1 scenario_second_buy
      f3 refl refl m2 p2 nz2 bt]
  have "\<exists>p. getPosition afterSecondBuy ''a1'' ''m1'' ''YES'' = Some p
          \<and> shares p = 225 \<and> entryPrice p = 4 / 9"
    by (simp add: scenarioAction_def)
  with f1 scenario_first_buy e p1 p2 g scenario_second_buy show ?thesis
    by (simp add: scenarioAction_def)
qed

text \<open>
  Claim C3 as stated gives \<open>(50 * 0.40 + 50 * 0.50) / 100 = 0.45\<close> for these two BUYs; the
  stored entry price is 4/9, which is 1/180 below.
\<close>

theorem two_buys_entry_price_differs:
  "success (snd (executeTrade noCredentials scenarioStore ''a1'' (scenarioAction BUY 50)))
   \<and> success (snd (executeTrade noCredentials
                     (afterFirstBuy\<lparr>markets := [scenarioMarket (1 / 2)]\<rparr>) ''a1''
                     (scenarioAction BUY 50)))
   \<and> map entryPrice (positions afterSecondBuy) = [4 / 9]
   \<and> (50 * (4 / 10) + 50 * (1 / 2)) / (50 + 50) - 4 / 9 = (1 / 180 :: real)"
  by (simp add: scenario_first_buy scenario_second_buy afterSecondBuy_positions heldPosition_def)

lemma executed_SELL_positions:
  assumes "success (snd (executeTrade env st agentId a))" and "action a = SELL"
    and "getMarket st (market_id a) = Some market"
  shows "positions (fst (executeTrade env st agentId a)) =
           sellPositions (positions st) agentId (market_id a) (side a) (size_usd a)
             (marketPrice market (side a))"
proof -
  from assms(1) obtain agent where ag: "getAgent st agentId = Some agent"
    and v: "validateTrade st agentId a = None"
    and cr: "isSimulation env
          \<or> (POLYMARKET_API_KEY env \<and> POLYMARKET_API_SECRET env \<and> POLYMARKET_PASSPHRASE env)"
    by (auto simp: executeTrade_success_iff)
  have ids: "aId agent = agentId" "mId market = market_id a"
    using ag assms(3) by (auto dest: getAgent_aId getMarket_mId)
  from assms(2,3) ag v cr ids show ?thesis
    by (auto simp: executeTrade_def Let_def executeRealTrade_def positions_simulateTrade_SELL
        positions_updateMetrics positions_updateTradeStatus positions_createTrade
        simulateTrade_succeeds case_prod_beta)
qed

text \<open>
  At a non-zero market price and in exact arithmetic, a SELL that leaves at most 0.001
  shares deletes the row it sold from; otherwise the row keeps more than 0.001 shares.
\<close>

lemma executed_SELL_deletes_or_keeps_positive:
  assumes "success (snd (executeTrade env st agentId a))" and "action a = SELL"
    and "getMarket st (market_id a) = Some market"
    and "marketPrice market (side a) \<noteq> 0"
    and "getPosition st agentId (market_id a) (side a) = Some p"
  shows "positions (fst (executeTrade env st agentId a)) =
     (if shares p - size_usd a / marketPrice market (side a) \<le> 1 / 1000
      then filter (\<lambda>q. pId q \<noteq> pId p) (positions st)
      else map (\<lambda>q. if pId q = pId p
                     then q\<lparr>shares := shares p - size_usd a / marketPrice market (side a),
                            currentValue := Some ((shares p - size_usd a / marketPrice market (side a))
                                                  * marketPrice market (side a))\<rparr>
                     else q) (positions st))"
  using executed_SELL_positions[OF assms(1-3)] assms(5)
  by (simp add: sellPositions_def getPosition_def)

lemma buyPositions_nonneg:
  assumes "\<forall>p\<in>set ps. 0 \<le> shares p" and "0 \<le> sz" and "0 < price"
  shows "\<forall>p\<in>set (buyPositions ps n ai mi sd sz price). 0 \<le> shares p"
proof (cases "find (\<lambda>p. pAgentId p = ai \<and> pMarketId p = mi \<and> pSide p = sd) ps")
  case None
  with assms show ?thesis by (auto simp: buyPositions_def)
next
  case (Some ep)
  then have "ep \<in> set ps" by (auto simp: find_Some_iff)
  with assms have "0 \<le> shares ep + sz / price" by (simp add: add_nonneg_nonneg)
  with assms Some show ?thesis by (auto simp: buyPositions_def)
qed

lemma sellPositions_nonneg:
  assumes "\<forall>p\<in>set ps. 0 \<le> shares p"
  shows "\<forall>p\<in>set (sellPositions ps ai mi sd sz price). 0 \<le> shares p"
  using assms by (auto simp: sellPositions_def split: option.splits)

text \<open>
  With a size that is not negative and a positive market price, an attempted trade keeps
  every stored share count at or above zero.
\<close>

lemma executeTrade_shares_nonneg:
  assumes "\<forall>p\<in>set (positions st). 0 \<le> shares p" and "0 \<le> size_usd a"
    and "\<forall>m\<in>set (markets st). 0 < marketPrice m (side a)"
  shows "\<forall>p\<in>set (positions (fst (executeTrade env st agentId a))). 0 \<le> shares p"
proof -
  from executeTrade_positions[of env st agentId a]
  consider "positions (fst (executeTrade env st agentId a)) = positions st"
    | market where "getMarket st (market_id a) = Some market"
        "positions (fst (executeTrade env st agentId a)) =
          (if action a = BUY
           then buyPositions (positions st) (Suc (nextId st)) agentId (market_id a) (side a)
                  (size_usd a) (marketPrice market (side a))
           else sellPositions (positions st) agentId (market_id a) (side a) (size_usd a)
                  (marketPrice market (side a)))"
    by blast
  then show ?thesis
  proof cases
    case 1
    with assms(1) show ?thesis by simp
  next
    case 2
    from 2(1) have "market \<in> set (markets st)"
      by (auto simp: getMarket_def find_Some_iff)
    with assms(3) have "0 < marketPrice market (side a)" by blast
    with 2(2) assms(1,2) show ?thesis
      using buyPositions_nonneg[of "positions st" "size_usd a" "marketPrice market (side a)"]
        sellPositions_nonneg[of "positions st"]
      by (simp split: if_splits)
  qed
qed

text \<open>
  Claim C7 at a BUY of size -10: every check of \<open>validateTrade\<close> is an upper bound, so the
  trade is executed, a position of -25 shares is stored and the balance rises to 510.
\<close>

theorem negative_buy_stores_negative_shares:
  "success (snd (executeTrade noCredentials scenarioStore ''a1'' (scenarioAction BUY (- 10))))
   \<and> map shares (positions (fst (executeTrade noCredentials scenarioStore ''a1''
                                      (scenarioAction BUY (- 10))))) = [- 25]
   \<and> map currentBalance (agents (fst (executeTrade noCredentials scenarioStore ''a1''
                                          (scenarioAction BUY (- 10))))) = [510]"
proof -
  let ?a = "scenarioAction BUY (- 10)"
  have s: "success (snd (executeTrade noCredentials scenarioStore ''a1'' ?a))"
    by (simp add: executor_defs scenario_defs Let_def case_prod_beta)
  have b: "action ?a = BUY" by (simp add: scenarioAction_def)
  have m: "getMarket scenarioStore (market_id ?a) = Some (scenarioMarket (4 / 10))"
    by (simp add: scenarioAction_def scenario_getMarket)
  have "map shares (positions (fst (executeTrade noCredentials scenarioStore ''a1'' ?a))) = [- 25]"
    by (simp add: executed_BUY_positions[OF s b m] buyPositions_def)
       (simp add: scenario_defs marketPrice_def)
  moreover
  have "map currentBalance (agents (fst (executeTrade noCredentials scenarioStore ''a1'' ?a)))
          = [510]"
    by (simp add: executed_agents[OF s scenario_getAgent])
       (simp add: scenario_defs)
  ultimately show ?thesis using s by simp
qed

section \<open>Properties of the decision engine\<close>

lemma actionTag_present: "actionTag v = Some act \<Longrightarrow> present v"
  by (auto simp: actionTag_def present_def split: if_splits)

text \<open>What \<open>parseTradeAction\<close> returns for a response whose action is BUY or SELL.\<close>

lemma parseTradeAction_nonHOLD:
  assumes "JSON_parse (cleanContent content) = Some parsed"
    and "actionTag (getProp parsed ''action'') = Some act" and "act \<noteq> HOLD"
  shows "parseTradeAction JSON_parse tn content =
     (case (getProp parsed ''market_id'', getProp parsed ''side'', getProp parsed ''size_usd'') of
        (Some m, Some sd, Some sz) \<Rightarrow>
          if \<not> truthy m \<or> \<not> truthy sd \<or> \<not> truthy sz then None
          else (case ToNumber tn sz of
                  None \<Rightarrow> None
                | Some n \<Rightarrow>
                    Some \<lparr>raw_action = act, raw_market_id = m, raw_side = sd,
                          raw_size_usd = Math_min n (Num 50),
                          raw_max_price = orElse (getProp parsed ''max_price'') (JNum 1),
                          raw_reasoning =
                            orElse (getProp parsed ''reasoning'')
                              (JStr ''No reasoning provided'')\<rparr>)
      | _ \<Rightarrow> None)"
proof -
  obtain fs where fs: "parsed = JObj fs"
    using assms(2) by (cases parsed) (auto simp: actionTag_def getProp_def split: if_splits)
  have pr: "present (getProp (JObj fs) ''action'')"
    using assms(2) unfolding fs by (rule actionTag_present)
  from assms(3) have "act = BUY \<or> act = SELL" by (cases act) auto
  then show ?thesis
    using assms(1,2) pr unfolding fs
    by (auto simp: parseTradeAction_def)
qed


lemma numeric_size_clamped:
  assumes "JSON_parse (cleanContent content) = Some parsed"
    and "actionTag (getProp parsed ''action'') = Some act" and "act \<noteq> HOLD"
    and "parseTradeAction JSON_parse tn content = Some r"
    and "getProp parsed ''size_usd'' = Some (JNum x)"
  shows "raw_size_usd r = Num (min x 50) \<and> js_le (raw_size_usd r) (Num 50)"
  using assms(4,5)
  unfolding parseTradeAction_nonHOLD[of JSON_parse content parsed act tn, OF assms(1-3)]
  by (auto simp: Math_min_def js_le_def ToNumber_def split: option.splits if_splits)


lemma cleanContent_fenced: "cleanContent fencedObjectSizeText = objectSizeText"
  by (simp add: cleanContent_def fencedObjectSizeText_def objectSizeText_def quoted_def trim_def
      isSpace_def startsWith_def endsWith_def fence_def Let_def)

text \<open>
  Claim C8 at a response whose \<open>size_usd\<close> is an object: the response is accepted, and the
  returned size is \<open>Math.min\<close> of \<open>NaN\<close> and 50, which is \<open>NaN\<close> and not at most 50.
\<close>

theorem object_size_usd_not_capped:
  "parseTradeAction (readsAs objectSizeText objectSizeValue) tn fencedObjectSizeText =
     Some \<lparr>raw_action = BUY, raw_market_id = JStr ''m1'', raw_side = JStr ''YES'',
           raw_size_usd = NaN, raw_max_price = JNum 1,
           raw_reasoning = JStr ''No reasoning provided''\<rparr>
   \<and> \<not> js_le NaN (Num 50)"
  by (simp add: parseTradeAction_def cleanContent_fenced readsAs_def objectSizeValue_def
      getProp_def present_def actionTag_def orElse_def ToNumber_def Math_min_def js_le_def)

text \<open>The same response, with every string and array read as \<open>NaN\<close>.\<close>

theorem object_size_usd_not_capped_witness:
  "parseTradeAction (readsAs objectSizeText objectSizeValue) (\<lambda>v. Some NaN) fencedObjectSizeText =
     Some \<lparr>raw_action = BUY, raw_market_id = JStr ''m1'', raw_side = JStr ''YES'',
           raw_size_usd = NaN, raw_max_price = JNum 1,
           raw_reasoning = JStr ''No reasoning provided''\<rparr>
   \<and> \<not> js_le NaN (Num 50)"
  using object_size_usd_not_capped[of "\<lambda>v. Some NaN"] by simp

lemma cleanContent_numericSizeText:
  "cleanContent (numericSizeText ''0'') = numericSizeText ''0''"
  "cleanContent (numericSizeText ''-10'') = numericSizeText ''-10''"
  "cleanContent (numericSizeText ''80'') = numericSizeText ''80''"
  by (simp_all add: cleanContent_def numericSizeText_def quoted_def trim_def isSpace_def
      startsWith_def endsWith_def fence_def Let_def)



section \<open>Properties of the metrics and the alert service\<close>

lemma updateMetrics_appends:
  "\<exists>m. performanceMetrics (updateMetrics st agent) = performanceMetrics st @ [m]
       \<and> maxDrawdown m = Some (min 0 (netPnl m / initialBalance agent))"
  by (simp add: updateMetrics_def createMetrics_def Let_def)

lemma checkPerformanceAlerts_no_critical:
  assumes "(case maxDrawdown m of None \<Rightarrow> 0 | Some d \<Rightarrow> d) < 10"
  shows "list_all (\<lambda>al. alSeverity al \<noteq> ''critical'')
           (drop (length (alerts s)) (alerts (checkPerformanceAlerts s ag m prev)))"
  using assms
  by (cases prev)
     (simp_all add: checkPerformanceAlerts_def Let_def createAlert_def defaultThresholds_def)

text \<open>
  Claim C9. The row that \<open>updateMetrics\<close> appends has
  \<open>maxDrawdown = min 0 (netPnl / initialBalance)\<close>, which is at most 0; the drawdown
  condition of \<open>checkPerformanceAlerts\<close> (at least 10) is false for it, and no alert that
  \<open>checkPerformanceAlerts\<close> creates for such a row is critical.
\<close>

theorem appended_metrics_never_raise_drawdown_alert:
  "\<exists>m. performanceMetrics (updateMetrics st agent) = performanceMetrics st @ [m]
       \<and> maxDrawdown m = Some (min 0 (netPnl m / initialBalance agent))
       \<and> min 0 (netPnl m / initialBalance agent) \<le> 0
       \<and> \<not> (case maxDrawdown m of None \<Rightarrow> 0 | Some d \<Rightarrow> d)
              \<ge> significantDrawdown defaultThresholds
       \<and> (\<forall>s ag prev.
             list_all (\<lambda>al. alSeverity al \<noteq> ''critical'')
               (drop (length (alerts s)) (alerts (checkPerformanceAlerts s ag m prev))))"
proof -
  from updateMetrics_appends[of st agent] obtain m where
    m: "performanceMetrics (updateMetrics st agent) = performanceMetrics st @ [m]"
       "maxDrawdown m = Some (min 0 (netPnl m / initialBalance agent))"
    by blast
  have le: "min 0 (netPnl m / initialBalance agent) \<le> 0" by simp
  then have lt: "(case maxDrawdown m of None \<Rightarrow> 0 | Some d \<Rightarrow> d) < 10"
    by (simp add: m(2))
  then have "\<not> (case maxDrawdown m of None \<Rightarrow> 0 | Some d \<Rightarrow> d)
              \<ge> significantDrawdown defaultThresholds"
    by (simp add: defaultThresholds_def)
  with m le checkPerformanceAlerts_no_critical[OF lt] show ?thesis by blast
qed

text \<open>The drawdown alert itself is raised by a row whose stored drawdown is 10 or more.\<close>

lemma drawdown_alert_needs_ten:
  "alerts (checkPerformanceAlerts scenarioStore (scenarioAgent 500)
             \<lparr>pmAgentId = ''a1'', netPnl = 0, sharpeRatio = None, maxDrawdown = Some 10,
              winRate = None, totalTrades = 0, winningTrades = 0, losingTrades = 0,
              avgHoldingTime = 0, turnover = 0\<rparr> None) =
     [\<lparr>alType = ''risk_breach'', alSeverity = ''critical'', alTitle = ''Drawdown Alert: GPT-5'',
       alAgentId = Some ''a1'', alTradeId = None\<rparr>]"
  by (simp add: checkPerformanceAlerts_def Let_def createAlert_def defaultThresholds_def
      scenarioStore_def scenarioAgent_def)

section \<open>Properties of the scheduler\<close>

lemma executeTrade_frame:
  "alerts (fst (executeTrade env st agentId a)) = alerts st"
  "broadcasts (fst (executeTrade env st agentId a)) = broadcasts st"
  "tickCycles (fst (executeTrade env st agentId a)) = tickCycles st"
  by (auto simp: executeTrade_def Let_def executeRealTrade_def case_prod_beta
      updateMetrics_frame updateTradeStatus_frame simulateTrade_frame createTrade_frame
      split: option.splits)

lemma broadcast_frame:
  "alerts (broadcast st msg) = alerts st"
  "tickCycles (broadcast st msg) = tickCycles st"
  "broadcasts (broadcast st msg) = broadcasts st @ [msg]"
  by (simp_all add: broadcast_def)

lemma updateCycle_frame:
  "alerts (updateCycle st i stat stamp mp te ec) = alerts st"
  "broadcasts (updateCycle st i stat stamp mp te ec) = broadcasts st"
  by (simp_all add: updateCycle_def)

lemma updatePosition_frame:
  "alerts (updatePosition st i f) = alerts st"
  "broadcasts (updatePosition st i f) = broadcasts st"
  "tickCycles (updatePosition st i f) = tickCycles st"
  "markets (updatePosition st i f) = markets st"
  by (simp_all add: updatePosition_def)

lemma foldl_preserves:
  assumes "\<And>s x. proj (f s x) = proj s"
  shows "proj (foldl f st xs) = proj st"
  using assms by (induction xs arbitrary: st) simp_all

lemma updatePositionValues_frame:
  "alerts (updatePositionValues st) = alerts st"
  "broadcasts (updatePositionValues st) = broadcasts st"
  "tickCycles (updatePositionValues st) = tickCycles st"
  unfolding updatePositionValues_def
  by (rule foldl_preserves, simp add: Let_def updatePosition_frame split: option.splits)+

lemma quiet_refl: "quiet s s"
  by (simp add: quiet_def)

lemma quiet_trans: "quiet s s' \<Longrightarrow> quiet s' s'' \<Longrightarrow> quiet s s''"
  by (simp add: quiet_def)

lemma quiet_executeTrade: "quiet st (fst (executeTrade env st agentId a))"
  by (simp add: quiet_def executeTrade_frame)

lemma quiet_broadcast: "\<not> isAlertMessage msg \<Longrightarrow> quiet st (broadcast st msg)"
  by (simp add: quiet_def broadcast_frame)

lemma quiet_NewTrade: "quiet st (broadcast st (NewTrade tr ag))"
  by (rule quiet_broadcast) (simp add: isAlertMessage_def)

lemma quiet_executeAction: "quiet st (fst (executeAction env st agentId raw))"
  by (simp add: quiet_def executeAction_def executeTrade_frame case_prod_beta Let_def
      split: option.splits)

lemma executeDecisions_quiet: "quiet st (fst (executeDecisions env ds st k))"
proof (induction ds arbitrary: st k)
  case Nil
  show ?case by (simp add: quiet_refl)
next
  case (Cons decision rest)
  have IH: "\<And>s k'. quiet s (fst (executeDecisions env rest s k'))"
    by (rule Cons.IH)
  show ?case
  proof (cases "tradeAction decision")
    case None
    then show ?thesis by (simp add: IH)
  next
    case (Some a)
    obtain st1 result where
      ex: "executeAction env st (dAgentId decision) a = (st1, result)"
      by (cases "executeAction env st (dAgentId decision) a")
    have q1: "quiet st st1"
      using quiet_executeAction[of st env "dAgentId decision" a] ex by simp
    have IH1: "\<And>k'. quiet st (fst (executeDecisions env rest st1 k'))"
      by (rule quiet_trans[OF q1 IH])
    have IH2: "\<And>k' tr ag.
        quiet st (fst (executeDecisions env rest (broadcast st1 (NewTrade tr ag)) k'))"
      by (rule quiet_trans[OF quiet_trans[OF q1 quiet_NewTrade] IH])
    from Some ex show ?thesis
      by (simp add: IH IH1 IH2 q1 Let_def split: option.splits)
  qed
qed

lemma cycleBody_frame:
  "alerts (fst (cycleBody env st cycle)) = alerts st
   \<and> filter isAlertMessage (broadcasts (fst (cycleBody env st cycle)))
       = filter isAlertMessage (broadcasts st)"
proof (cases "collectAll env (markets st)")
  case (Inl e)
  then show ?thesis by (simp add: cycleBody_def)
next
  case (Inr r)
  obtain ms n where r: "r = (ms, n)" by (cases r)
  show ?thesis
  proof (cases "formatForAgentsError env")
    case (Some e)
    with Inr r show ?thesis by (simp add: cycleBody_def)
  next
    case None
    show ?thesis
    proof (cases "getDecisions env (st\<lparr>markets := ms\<rparr>)")
      case (Inl e)
      with Inr r None show ?thesis by (simp add: cycleBody_def)
    next
      case ds: (Inr decisions)
      obtain st2 k2 ex where
        ed: "executeDecisions env decisions (st\<lparr>markets := ms\<rparr>)
               \<lparr>marketsProcessed = n, tradesExecuted = 0, errorCount = 0\<rparr> = (st2, k2, ex)"
        by (metis prod_cases3)
      from executeDecisions_quiet[of "st\<lparr>markets := ms\<rparr>" env decisions
          "\<lparr>marketsProcessed = n, tradesExecuted = 0, errorCount = 0\<rparr>"] ed
      have q: "alerts st2 = alerts st"
        "filter isAlertMessage (broadcasts st2) = filter isAlertMessage (broadcasts st)"
        by (simp_all add: quiet_def)
      from Inr r None ds ed q show ?thesis
        by (simp add: cycleBody_def Let_def updatePositionValues_frame updateCycle_frame
            broadcast_frame isAlertMessage_def split: option.splits)
    qed
  qed
qed

lemma createCycle_frame:
  "alerts (fst (createCycle st n stat mp te ec)) = alerts st"
  "broadcasts (fst (createCycle st n stat mp te ec)) = broadcasts st"
  by (simp_all add: createCycle_def Let_def)

text \<open>
  \<open>runCycle\<close> never calls the alert service: whatever the environment does, the alerts
  table after a cycle is the one before it, and the cycle broadcasts no alert message.
\<close>

lemma runCycle_never_alerts:
  "alerts (fst (runCycle env st)) = alerts st
   \<and> filter isAlertMessage (broadcasts (fst (runCycle env st)))
       = filter isAlertMessage (broadcasts st)"
proof (cases "throws env CreateCycleCall")
  case True
  then show ?thesis by (simp add: runCycle_def)
next
  case False
  let ?st = "st\<lparr>cycleNumber := Suc (cycleNumber st)\<rparr>"
  obtain st1 cycle where cc: "createCycle ?st (cycleNumber ?st) ''running'' 0 0 0 = (st1, cycle)"
    by (cases "createCycle ?st (cycleNumber ?st) ''running'' 0 0 0")
  let ?st2 = "broadcast st1 (CycleStart cycle)"
  from createCycle_frame[of ?st "cycleNumber ?st" "''running''" 0 0 0] cc
  have s2: "alerts ?st2 = alerts st"
    "filter isAlertMessage (broadcasts ?st2) = filter isAlertMessage (broadcasts st)"
    by (simp_all add: broadcast_frame isAlertMessage_def)
  obtain st3 k ex where cb: "cycleBody env ?st2 cycle = (st3, k, ex)"
    by (metis prod_cases3)
  from cycleBody_frame[of env ?st2 cycle] cb s2
  have s3: "alerts st3 = alerts st"
    "filter isAlertMessage (broadcasts st3) = filter isAlertMessage (broadcasts st)"
    by simp_all
  from False cc cb s3 show ?thesis
    by (simp add: runCycle_def Let_def updateCycle_frame split: option.splits)
qed

lemma runCycle_scenario_start:
  assumes "\<not> throws env CreateCycleCall"
  shows "runCycle env scenarioStore =
     (case cycleBody env startedStore startedCycle of
        (st3, k, None) \<Rightarrow> (st3, None)
      | (st3, k, Some e) \<Rightarrow>
          if throws env FailedUpdateCycle then (st3, Some ''updateCycle'')
          else (updateCycle st3 0 ''failed'' (now env)
                  (marketsProcessed k) (tradesExecuted k) (Suc (errorCount k)), None))"
proof -
  let ?st = "scenarioStore\<lparr>cycleNumber := Suc (cycleNumber scenarioStore)\<rparr>"
  have a: "createCycle ?st (cycleNumber ?st) ''running'' 0 0 0 =
      (scenarioStore\<lparr>tickCycles := [startedCycle], nextId := Suc 0, cycleNumber := Suc 0\<rparr>,
       startedCycle)"
    by (simp add: createCycle_def scenarioStore_def startedCycle_def Let_def)
  have b: "broadcast (scenarioStore\<lparr>tickCycles := [startedCycle], nextId := Suc 0,
                                   cycleNumber := Suc 0\<rparr>) (CycleStart startedCycle) = startedStore"
    by (simp add: broadcast_def startedStore_def scenarioStore_def)
  have c: "cId startedCycle = 0" by (simp add: startedCycle_def)
  from assms show ?thesis
    unfolding runCycle_def Let_def a by (simp add: b c split: prod.splits option.splits)
qed


lemmas cycle_defs =
  cycleBody_def getDecisions_def getAgentDecision_def callProvider_def getAgents_def
  updatePositionValues_def updateCycle_def
  getLastCycle_def getLatestMetrics_def broadcast_def scenarioEnv_def outageEnv_def
  startedStore_def startedCycle_def scenarioStore_def scenarioAgent_def scenarioMarket_def

text \<open>
  Claim C4 at a cycle in which the only agent's provider call throws. The cycle completes
  with error count 1 and leaves the alerts table empty. The alert service is never invoked:
  \<open>checkCycleAlerts\<close>, called with the counts of this cycle, would have created a
  \<open>system_error\<close> alert.
\<close>

theorem failed_agent_raises_no_alert:
  "map cStatus (tickCycles (fst (runCycle (scenarioEnv (\<lambda>agent. Inl ''provider'') []) scenarioStore)))
     = [''completed'']
   \<and> map cErrorCount
         (tickCycles (fst (runCycle (scenarioEnv (\<lambda>agent. Inl ''provider'') []) scenarioStore)))
     = [1]
   \<and> alerts (fst (runCycle (scenarioEnv (\<lambda>agent. Inl ''provider'') []) scenarioStore)) = []
   \<and> map alType
         (alerts (checkCycleAlerts scenarioStore
                    \<lparr>csCycleNumber = 1, csMarketsProcessed = 1, csTradesExecuted = 0,
                     csErrorCount = 1\<rparr>))
     = [''system_error'']"
proof -
  let ?env = "scenarioEnv (\<lambda>agent. Inl ''provider'') []"
  have t: "\<not> throws ?env CreateCycleCall" by (simp add: scenarioEnv_def)
  have cb: "cycleBody ?env startedStore startedCycle =
      (startedStore\<lparr>tickCycles :=
           [startedCycle\<lparr>cStatus := ''completed'', cCompletedAt := Some 7,
              cMarketsProcessed := 1, cTradesExecuted := 0, cErrorCount := 1\<rparr>],
         broadcasts := [CycleStart startedCycle,
           CycleComplete (startedCycle\<lparr>cStatus := ''completed'', cCompletedAt := Some 7,
              cMarketsProcessed := 1, cTradesExecuted := 0, cErrorCount := 1\<rparr>) 0 1
            [scenarioAgent 500] []]\<rparr>,
       \<lparr>marketsProcessed = 1, tradesExecuted = 0, errorCount = 1\<rparr>, None)"
    by (simp add: cycle_defs Let_def)
  have al: "map alType
         (alerts (checkCycleAlerts scenarioStore
                    \<lparr>csCycleNumber = 1, csMarketsProcessed = 1, csTradesExecuted = 0,
                     csErrorCount = 1\<rparr>))
     = [''system_error'']"
    by (simp add: checkCycleAlerts_def createAlert_def scenarioStore_def Let_def)
  have r: "runCycle ?env scenarioStore =
      (startedStore\<lparr>tickCycles :=
           [startedCycle\<lparr>cStatus := ''completed'', cCompletedAt := Some 7,
              cMarketsProcessed := 1, cTradesExecuted := 0, cErrorCount := 1\<rparr>],
         broadcasts := [CycleStart startedCycle,
           CycleComplete (startedCycle\<lparr>cStatus := ''completed'', cCompletedAt := Some 7,
              cMarketsProcessed := 1, cTradesExecuted := 0, cErrorCount := 1\<rparr>) 0 1
            [scenarioAgent 500] []]\<rparr>, None)"
    unfolding runCycle_scenario_start[OF t] cb by simp
  have c: "map cStatus (tickCycles (fst (runCycle ?env scenarioStore))) = [''completed'']"
    "map cErrorCount (tickCycles (fst (runCycle ?env scenarioStore))) = [1]"
    "alerts (fst (runCycle ?env scenarioStore)) = []"
    unfolding r by (simp_all add: startedStore_def scenarioStore_def)
  from c al show ?thesis by blast
qed

text \<open>
  Claim C5 at a cycle whose data collection throws while the store stays unreachable, so
  that the handler's own \<open>updateCycle\<close> throws as well: the exception reaches the caller
  and the cycle's row stays \<open>running\<close> with error count 0.
\<close>

theorem handler_write_failure_propagates:
  "runCycle (outageEnv [FailedUpdateCycle]) scenarioStore = (startedStore, Some ''updateCycle'')
   \<and> map cStatus (tickCycles startedStore) = [''running'']
   \<and> map cErrorCount (tickCycles startedStore) = [0]"
proof -
  let ?env = "outageEnv [FailedUpdateCycle]"
  have t: "\<not> throws ?env CreateCycleCall" by (simp add: outageEnv_def)
  have cb: "cycleBody ?env startedStore startedCycle =
      (startedStore, \<lparr>marketsProcessed = 0, tradesExecuted = 0, errorCount = 0\<rparr>,
       Some ''getMarkets'')"
    by (simp add: cycleBody_def outageEnv_def Let_def)
  show ?thesis
    unfolding runCycle_scenario_start[OF t] cb
    by (simp add: outageEnv_def) (simp add: startedStore_def startedCycle_def)
qed

text \<open>
  Claim C6 at a cycle whose read of the agents for the summary throws: the \<open>try\<close> block has
  already written \<open>completed\<close> when the exception leaves it, and the handler then writes
  \<open>failed\<close> over it, with one more error.
\<close>

theorem completed_cycle_marked_failed:
  "map cStatus (tickCycles startedStore) = [''running'']
   \<and> map cStatus (tickCycles (fst (cycleBody (scenarioEnv (\<lambda>agent. Inr None)
              [SummaryGetAgentsMetrics]) startedStore startedCycle))) = [''completed'']
   \<and> snd (snd (cycleBody (scenarioEnv (\<lambda>agent. Inr None) [SummaryGetAgentsMetrics])
                   startedStore startedCycle)) = Some ''getAgents''
   \<and> map cStatus (tickCycles (fst (runCycle (scenarioEnv (\<lambda>agent. Inr None)
              [SummaryGetAgentsMetrics]) scenarioStore))) = [''failed'']
   \<and> map cErrorCount (tickCycles (fst (runCycle (scenarioEnv (\<lambda>agent. Inr None)
              [SummaryGetAgentsMetrics]) scenarioStore))) = [1]
   \<and> snd (runCycle (scenarioEnv (\<lambda>agent. Inr None) [SummaryGetAgentsMetrics]) scenarioStore)
       = None"
proof -
  let ?env = "scenarioEnv (\<lambda>agent. Inr None) [SummaryGetAgentsMetrics]"
  have t: "\<not> throws ?env CreateCycleCall" by (simp add: scenarioEnv_def)
  have cb: "cycleBody ?env startedStore startedCycle =
      (startedStore\<lparr>tickCycles :=
           [startedCycle\<lparr>cStatus := ''completed'', cCompletedAt := Some 7,
              cMarketsProcessed := 1, cTradesExecuted := 0, cErrorCount := 0\<rparr>]\<rparr>,
       \<lparr>marketsProcessed = 1, tradesExecuted = 0, errorCount = 0\<rparr>, Some ''getAgents'')"
    by (simp add: cycle_defs Let_def)
  show ?thesis
    unfolding runCycle_scenario_start[OF t] cb
    by (simp add: scenarioEnv_def updateCycle_def)
       (simp add: startedStore_def startedCycle_def)
qed

lemma cycleBody_cycle_ids:
  "map cId (tickCycles (fst (cycleBody env st cycle))) = map cId (tickCycles st)"
proof (cases "collectAll env (markets st)")
  case (Inl e)
  then show ?thesis by (simp add: cycleBody_def)
next
  case (Inr r)
  obtain ms n where r: "r = (ms, n)" by (cases r)
  show ?thesis
  proof (cases "formatForAgentsError env")
    case (Some e)
    with Inr r show ?thesis by (simp add: cycleBody_def)
  next
    case None
    show ?thesis
    proof (cases "getDecisions env (st\<lparr>markets := ms\<rparr>)")
      case (Inl e)
      with Inr r None show ?thesis by (simp add: cycleBody_def)
    next
      case ds: (Inr decisions)
      obtain st2 k2 ex where
        ed: "executeDecisions env decisions (st\<lparr>markets := ms\<rparr>)
               \<lparr>marketsProcessed = n, tradesExecuted = 0, errorCount = 0\<rparr> = (st2, k2, ex)"
        by (metis prod_cases3)
      from executeDecisions_quiet[of "st\<lparr>markets := ms\<rparr>" env decisions
          "\<lparr>marketsProcessed = n, tradesExecuted = 0, errorCount = 0\<rparr>"] ed
      have q: "tickCycles st2 = tickCycles st"
        by (simp add: quiet_def)
      have u: "\<And>s i stat stamp mp te ec.
          map cId (tickCycles (updateCycle s i stat stamp mp te ec)) = map cId (tickCycles s)"
        by (simp add: updateCycle_def comp_def)
      from Inr r None ds ed q show ?thesis
        by (simp add: cycleBody_def Let_def updatePositionValues_frame u broadcast_frame
            split: option.splits)
    qed
  qed
qed

text \<open>
  When an exception leaves the \<open>try\<close> block and the handler's own \<open>updateCycle\<close> succeeds,
  nothing reaches the caller and the cycle's row is marked failed, with the completion time
  and one more error than the block had counted.
\<close>

lemma body_exception_marks_failed:
  assumes "\<not> throws env CreateCycleCall" and "\<not> throws env FailedUpdateCycle"
    and cc: "createCycle (st\<lparr>cycleNumber := Suc (cycleNumber st)\<rparr>) (Suc (cycleNumber st))
               ''running'' 0 0 0 = (st1, cycle)"
    and cb: "cycleBody env (broadcast st1 (CycleStart cycle)) cycle = (st3, k, Some e)"
  shows "snd (runCycle env st) = None
       \<and> (\<exists>c\<in>set (tickCycles (fst (runCycle env st))). cId c = cId cycle)
       \<and> (\<forall>c\<in>set (tickCycles (fst (runCycle env st))). cId c = cId cycle \<longrightarrow>
             cStatus c = ''failed'' \<and> cCompletedAt c = Some (now env)
             \<and> cErrorCount c = Suc (errorCount k))"
proof -
  have r: "runCycle env st =
      (updateCycle st3 (cId cycle) ''failed'' (now env) (marketsProcessed k) (tradesExecuted k)
         (Suc (errorCount k)), None)"
    using assms by (simp add: runCycle_def Let_def)
  have "cycle \<in> set (tickCycles st1)"
    using cc by (auto simp: createCycle_def Let_def)
  then have "cId cycle \<in> set (map cId (tickCycles (broadcast st1 (CycleStart cycle))))"
    by (simp add: broadcast_frame)
  with cycleBody_cycle_ids[of env "broadcast st1 (CycleStart cycle)" cycle] cb
  have "cId cycle \<in> set (map cId (tickCycles st3))" by simp
  then obtain c where c: "c \<in> set (tickCycles st3)" "cId c = cId cycle" by auto
  show ?thesis
    unfolding r using c by (auto simp: updateCycle_def intro!: bexI[of _ "c\<lparr>cStatus := ''failed'',
        cCompletedAt := Some (now env), cMarketsProcessed := marketsProcessed k,
        cTradesExecuted := tradesExecuted k, cErrorCount := Suc (errorCount k)\<rparr>"])
qed

lemma outage_cycle_marked_failed:
  "runCycle (outageEnv []) scenarioStore =
     (startedStore\<lparr>tickCycles :=
        [startedCycle\<lparr>cStatus := ''failed'', cCompletedAt := Some 7, cMarketsProcessed := 0,
           cTradesExecuted := 0, cErrorCount := 1\<rparr>]\<rparr>, None)"
proof -
  have t: "\<not> throws (outageEnv []) CreateCycleCall" by (simp add: outageEnv_def)
  have cb: "cycleBody (outageEnv []) startedStore startedCycle =
      (startedStore, \<lparr>marketsProcessed = 0, tradesExecuted = 0, errorCount = 0\<rparr>,
       Some ''getMarkets'')"
    by (simp add: cycleBody_def outageEnv_def Let_def)
  show ?thesis
    unfolding runCycle_scenario_start[OF t] cb
    by (simp add: outageEnv_def updateCycle_def)
       (simp add: startedStore_def startedCycle_def)
qed

section \<open>From the provider's response to the executor\<close>




text \<open>
  The loop over the decisions, at one decision with an action of the declared types: the
  executor's tables are those \<open>executeTrade\<close> leaves for this action, and the counters
  count its result.
\<close>

lemma executeDecisions_single:
  assumes "typedAction r = Some a" and "raw_action r \<noteq> HOLD"
  shows "positions (fst (executeDecisions env
            [\<lparr>dAgentId = i, dAgentName = n, tradeAction = Some r, dError = None\<rparr>] st k))
           = positions (fst (executeTrade (credentials env) st i a))"
    and "agents (fst (executeDecisions env
            [\<lparr>dAgentId = i, dAgentName = n, tradeAction = Some r, dError = None\<rparr>] st k))
           = agents (fst (executeTrade (credentials env) st i a))"
    and "trades (fst (executeDecisions env
            [\<lparr>dAgentId = i, dAgentName = n, tradeAction = Some r, dError = None\<rparr>] st k))
           = trades (fst (executeTrade (credentials env) st i a))"
    and "fst (snd (executeDecisions env
            [\<lparr>dAgentId = i, dAgentName = n, tradeAction = Some r, dError = None\<rparr>] st k))
           = (if success (snd (executeTrade (credentials env) st i a))
              then k\<lparr>tradesExecuted := Suc (tradesExecuted k)\<rparr>
              else k\<lparr>errorCount := Suc (errorCount k)\<rparr>)"
  using assms
  by (simp_all add: executeAction_def Let_def case_prod_beta broadcast_def
      split: option.splits)


lemma response_parsed:
  "parseTradeAction (parseJSON (responseEnv (numericSizeText ''-10'') (numericSizeValue (- 10))))
      (readNumber (responseEnv (numericSizeText ''-10'') (numericSizeValue (- 10))))
      (numericSizeText ''-10'') = Some (responseRaw (- 10))"
  "parseTradeAction (parseJSON (responseEnv (numericSizeText ''80'') (numericSizeValue 80)))
      (readNumber (responseEnv (numericSizeText ''80'') (numericSizeValue 80)))
      (numericSizeText ''80'') = Some (responseRaw 50)"
  by (simp_all add: parseTradeAction_def cleanContent_numericSizeText responseEnv_def
      scenarioEnv_def readsAs_def numericSizeValue_def getProp_def present_def actionTag_def
      orElse_def ToNumber_def Math_min_def responseRaw_def)



section \<open>A cycle with a negative size\<close>

lemma updatePositionValues_shares:
  "map shares (positions (updatePositionValues st)) = map shares (positions st)"
  unfolding updatePositionValues_def
  by (rule foldl_preserves[where proj = "\<lambda>s. map shares (positions s)"])
     (simp add: Let_def updatePosition_def comp_def split: option.splits)

lemma executeDecisions_single_returns:
  assumes "\<not> throws env (TradeGetAgent i)"
  shows "snd (snd (executeDecisions env
            [\<lparr>dAgentId = i, dAgentName = n, tradeAction = ta, dError = None\<rparr>] st k)) = None"
  using assms by (simp add: Let_def case_prod_beta split: option.splits)

text \<open>
  A cycle whose steps throw nothing: the share counts it leaves are those the loop over the
  decisions leaves, and no exception leaves the \<open>try\<close> block.
\<close>

lemma cycleBody_shares:
  assumes "collectAll env (markets st) = Inr (ms, n)" and "formatForAgentsError env = None"
    and "getDecisions env (st\<lparr>markets := ms\<rparr>) = Inr ds"
    and "snd (snd (executeDecisions env ds (st\<lparr>markets := ms\<rparr>)
                    \<lparr>marketsProcessed = n, tradesExecuted = 0, errorCount = 0\<rparr>)) = None"
    and "\<not> throws env CompletedUpdateCycle" and "\<not> throws env SummaryGetAgentsMetrics"
    and "\<not> throws env SummaryGetLastCycle"
  shows "map shares (positions (fst (cycleBody env st cycle))) =
           map shares (positions (fst (executeDecisions env ds (st\<lparr>markets := ms\<rparr>)
                    \<lparr>marketsProcessed = n, tradesExecuted = 0, errorCount = 0\<rparr>)))"
    and "snd (snd (cycleBody env st cycle)) = None"
proof -
  obtain st2 k2 where
    ed: "executeDecisions env ds (st\<lparr>markets := ms\<rparr>)
           \<lparr>marketsProcessed = n, tradesExecuted = 0, errorCount = 0\<rparr> = (st2, k2, None)"
    using assms(4) by (metis prod.collapse)
  have u: "\<And>s i stat stamp mp te ec. positions (updateCycle s i stat stamp mp te ec) = positions s"
    by (simp add: updateCycle_def)
  have b: "\<And>s msg. positions (broadcast s msg) = positions s"
    by (simp add: broadcast_def)
  from assms(1-3,5-7) ed
  show "map shares (positions (fst (cycleBody env st cycle))) =
           map shares (positions (fst (executeDecisions env ds (st\<lparr>markets := ms\<rparr>)
                    \<lparr>marketsProcessed = n, tradesExecuted = 0, errorCount = 0\<rparr>)))"
    by (simp add: cycleBody_def Let_def u b updatePositionValues_shares split: option.splits)
  from assms(1-3,5-7) ed
  show "snd (snd (cycleBody env st cycle)) = None"
    by (simp add: cycleBody_def Let_def split: option.splits)
qed

text \<open>
  The scenario's agent is answered a BUY with \<open>size_usd\<close> -10: the cycle ends without an
  exception and leaves a position of -25 shares.
\<close>

lemma negative_size_response_cycle:
  "map shares (positions (fst (runCycle
       (responseEnv (numericSizeText ''-10'') (numericSizeValue (- 10))) scenarioStore))) = [- 25]
   \<and> snd (runCycle (responseEnv (numericSizeText ''-10'') (numericSizeValue (- 10)))
            scenarioStore) = None"
proof -
  let ?env = "responseEnv (numericSizeText ''-10'') (numericSizeValue (- 10))"
  let ?a = "responseAction (- 10)"
  let ?d = "\<lparr>dAgentId = ''a1'', dAgentName = ''GPT-5'', tradeAction = Some (responseRaw (- 10)),
             dError = None\<rparr>"
  let ?k = "\<lparr>marketsProcessed = 1, tradesExecuted = 0, errorCount = 0\<rparr>"
  have t: "\<not> throws ?env site" for site
    by (simp add: responseEnv_def scenarioEnv_def)
  have cr: "credentials ?env = noCredentials"
    by (simp add: responseEnv_def scenarioEnv_def)
  have ms: "startedStore\<lparr>markets := markets startedStore\<rparr> = startedStore"
    by simp
  have co: "collectAll ?env (markets startedStore) = Inr (markets startedStore, 1)"
    by (simp add: responseEnv_def scenarioEnv_def startedStore_def scenarioStore_def)
  have fo: "formatForAgentsError ?env = None"
    by (simp add: responseEnv_def scenarioEnv_def)
  have ad: "getAgentDecision ?env (scenarioAgent 500) = Inr (Some (responseRaw (- 10)))"
    unfolding getAgentDecision_def callProvider_def response_parsed[symmetric]
    by (simp add: responseEnv_def scenarioEnv_def scenarioAgent_def numericSizeText_def)
  have gd: "getDecisions ?env startedStore = Inr [?d]"
    unfolding getDecisions_def
    by (simp add: t ad getAgents_def startedStore_def scenarioStore_def)
       (simp add: scenarioAgent_def)
  have ty: "typedAction (responseRaw (- 10)) = Some ?a"
    by (simp add: typedAction_def responseRaw_def responseAction_def)
  have nh: "raw_action (responseRaw (- 10)) \<noteq> HOLD"
    by (simp add: responseRaw_def)
  have ga: "getAgent startedStore ''a1'' = Some (scenarioAgent 500)"
    by (simp add: getAgent_def startedStore_def scenarioStore_def scenarioAgent_def)
  have s: "success (snd (executeTrade noCredentials startedStore ''a1'' ?a))"
    by (simp add: executeTrade_success_iff validateTrade_def ga)
       (simp add: startedStore_def scenario_defs responseAction_def getMarket_def
         maxTradePercent_def minLiquidity_def marketPrice_def isSimulation_def getPosition_def)
  have b: "action ?a = BUY" by (simp add: responseAction_def)
  have m: "getMarket startedStore (market_id ?a) = Some (scenarioMarket (4 / 10))"
    by (simp add: responseAction_def getMarket_def startedStore_def scenario_defs)
  have ex: "map shares (positions (fst (executeTrade noCredentials startedStore ''a1'' ?a)))
              = [- 25]"
    by (simp add: executed_BUY_positions[OF s b m] buyPositions_def)
       (simp add: startedStore_def scenario_defs marketPrice_def responseAction_def)
  have ed: "map shares (positions (fst (executeDecisions ?env [?d] startedStore ?k))) = [- 25]"
    unfolding executeDecisions_single(1)[OF ty nh] cr by (rule ex)
  have rt: "snd (snd (executeDecisions ?env [?d]
              (startedStore\<lparr>markets := markets startedStore\<rparr>) ?k)) = None"
    by (rule executeDecisions_single_returns) (rule t)
  note cb = cycleBody_shares[of ?env startedStore "markets startedStore" 1 "[?d]" startedCycle,
      OF co fo _ rt t t t, unfolded ms, OF gd]
  obtain st3 k3 where c: "cycleBody ?env startedStore startedCycle = (st3, k3, None)"
    using cb(2) by (metis prod.collapse)
  have r: "runCycle ?env scenarioStore = (st3, None)"
    unfolding runCycle_scenario_start[OF t] c by simp
  from cb(1) c ed show ?thesis
    unfolding r by simp
qed

end
